theory Spec2Isabelle
  imports Main "HOL-Library.Product_Lexorder"
begin

section \<open>Values of the JavaScript runtime\<close>

text \<open>
  The service in \<^verbatim>\<open>index.js\<close> is a set of Express route handlers over a MongoDB
  database. Request bodies are parsed JSON, documents are JavaScript objects that may
  also hold the driver's \<^verbatim>\<open>ObjectId\<close> and \<^verbatim>\<open>Date\<close> values.

  An \<^verbatim>\<open>ObjectId\<close> is represented by the hexadecimal string its \<^verbatim>\<open>toString()\<close>
  returns. A \<^verbatim>\<open>Date\<close> is its time value in milliseconds since the epoch, \<open>None\<close>
  for an Invalid Date (time value NaN). JSON numbers are integers here: the handlers only
  test numbers for truthiness and pass them on.
\<close>

datatype objectid = ObjectId string

datatype val =
    VNull
  | VBool bool
  | VNum int
  | VStr string
  | VDate "int option"
  | VOid objectid
  | VArr "val list"
  | VObj "(string \<times> val) list"

type_synonym obj = "(string \<times> val) list"

text \<open>Thrown values: the error classes the handlers tell apart in their catch blocks.\<close>

datatype js_error =
    TypeError string
  | RangeError string
  | BSONError string
  | MongoServerError nat string
  | Error string

fun error_message :: "js_error \<Rightarrow> string" where
  "error_message (TypeError m) = m"
| "error_message (RangeError m) = m"
| "error_message (BSONError m) = m"
| "error_message (MongoServerError c m) = m"
| "error_message (Error m) = m"

text \<open>\<^verbatim>\<open>error.code\<close>: only the server's errors carry one.\<close>

fun error_code :: "js_error \<Rightarrow> nat option" where
  "error_code (MongoServerError c m) = Some c"
| "error_code e = None"

text \<open>\<^verbatim>\<open>error instanceof RangeError || error instanceof TypeError\<close>\<close>

fun range_or_type_error :: "js_error \<Rightarrow> bool" where
  "range_or_type_error (TypeError m) = True"
| "range_or_type_error (RangeError m) = True"
| "range_or_type_error e = False"

text \<open>
  Truthiness of a value that may be \<^verbatim>\<open>undefined\<close> (\<open>None\<close>): \<^verbatim>\<open>!x\<close> is
  \<open>\<not> truthy x\<close>.
\<close>

fun truthy :: "val option \<Rightarrow> bool" where
  "truthy None = False"
| "truthy (Some VNull) = False"
| "truthy (Some (VBool b)) = b"
| "truthy (Some (VNum n)) = (n \<noteq> 0)"
| "truthy (Some (VStr s)) = (s \<noteq> [])"
| "truthy (Some v) = True"

text \<open>
  Property access \<^verbatim>\<open>x.k\<close> on a parsed JSON value, for the property names the handlers
  read (none of them is a built-in property of a string, number, boolean or array): an
  object gives the value stored under the key, everything else \<^verbatim>\<open>undefined\<close>.
\<close>

fun field :: "val \<Rightarrow> string \<Rightarrow> val option" where
  "field (VObj ps) k = map_of ps k"
| "field v k = None"

text \<open>\<^verbatim>\<open>x.a.b\<close>, read by the handlers only after \<^verbatim>\<open>x.a\<close> was found truthy.\<close>

definition field2 :: "val \<Rightarrow> string \<Rightarrow> string \<Rightarrow> val option" where
  "field2 v a b = (case field v a of None \<Rightarrow> None | Some x \<Rightarrow> field x b)"

text \<open>
  An object literal \<^verbatim>\<open>{...o, k: v}\<close>: a key of the spread object keeps its place and
  takes the new value, a new key is added at the end.
\<close>

definition obj_set :: "string \<Rightarrow> val \<Rightarrow> obj \<Rightarrow> obj" where
  "obj_set k v ps =
     (if k \<in> fst ` set ps then map (\<lambda>(k', v'). if k' = k then (k', v) else (k', v')) ps
      else ps @ [(k, v)])"

text \<open>
  The own enumerable properties \<^verbatim>\<open>{...x}\<close> copies. The handlers spread only a body
  that has a truthy \<^verbatim>\<open>title\<close>, which makes it an object.
\<close>

fun spread :: "val \<Rightarrow> obj" where
  "spread (VObj ps) = ps"
| "spread v = []"

section \<open>Libraries and environment\<close>

text \<open>
  The libraries the handlers call are not part of the repository; they are parameters of
  the model. \<open>ObjectId_isValid\<close> is \<^verbatim>\<open>ObjectId.isValid\<close>. \<open>ObjectId_new\<close> is
  \<^verbatim>\<open>new ObjectId(x)\<close> as the first call of a request evaluates it; it throws on a
  malformed argument. The constructor is not a function of its argument: from a string
  it takes the identifier the string denotes, the same on every call, but for another
  argument that it accepts (a number, \<^verbatim>\<open>null\<close>, \<^verbatim>\<open>undefined\<close>) it generates a new
  identifier on each call. \<open>ObjectId_later k x\<close> is what the call after \<open>k\<close> earlier calls
  of the request gives for such an argument. \<open>Date_new\<close> is the time
  value of \<^verbatim>\<open>new Date(x)\<close>, \<open>String_of\<close> is the string a template literal puts for a
  value, \<open>bcrypt_hash\<close> and \<open>bcrypt_compare\<close> are bcryptjs' \<^verbatim>\<open>hash\<close> and
  \<^verbatim>\<open>compare\<close>, \<open>jwt_sign\<close> is \<^verbatim>\<open>jwt.sign\<close> of a payload with the server's secret and a
  one hour expiry, at the time it is called. \<open>mongo_matches q v\<close> tells whether the database finds that a stored value \<open>v\<close>
  satisfies the condition \<open>q\<close> a client put into a query (for a string, equality). An
  argument that may be \<^verbatim>\<open>undefined\<close> is an option.
\<close>

record lib =
  ObjectId_isValid :: "val option \<Rightarrow> bool"
  ObjectId_new :: "val option \<Rightarrow> js_error + objectid"
  ObjectId_later :: "nat \<Rightarrow> val option \<Rightarrow> js_error + objectid"
  Date_new :: "val option \<Rightarrow> int option"
  String_of :: "val option \<Rightarrow> string"
  bcrypt_hash :: "val option \<Rightarrow> string \<Rightarrow> js_error + string"
  bcrypt_compare :: "val option \<Rightarrow> string \<Rightarrow> js_error + bool"
  jwt_sign :: "val \<Rightarrow> int \<Rightarrow> string"
  mongo_matches :: "val option \<Rightarrow> val \<Rightarrow> bool"

text \<open>
  What one request takes from its environment: whether \<^verbatim>\<open>app.locals.db\<close> is set
  (\<^verbatim>\<open>startServer\<close> sets it before the server listens), the clock read by
  \<^verbatim>\<open>new Date()\<close>, the salt \<^verbatim>\<open>bcrypt.genSalt\<close> draws, the identifier the driver
  generates for an inserted document, and the error the database raises, if any, on the
  request's \<open>k\<close>-th call.
\<close>

record world =
  db_connected :: bool
  now :: int
  salt :: string
  fresh_id :: objectid
  fault :: "nat \<Rightarrow> js_error option"

section \<open>Responses\<close>

record response =
  res_status :: nat
  res_body :: val

definition json :: "nat \<Rightarrow> val \<Rightarrow> response" where
  "json code b = \<lparr>res_status = code, res_body = b\<rparr>"

definition message :: "string \<Rightarrow> val" where
  "message m = VObj [(''message'', VStr m)]"

definition message_error :: "string \<Rightarrow> js_error \<Rightarrow> val" where
  "message_error m e = VObj [(''message'', VStr m), (''error'', VStr (error_message e))]"

text \<open>
  \<^verbatim>\<open>JSON.stringify\<close> leaves out a property whose value is \<^verbatim>\<open>undefined\<close>.
\<close>

fun json_fields :: "(string \<times> val option) list \<Rightarrow> obj" where
  "json_fields [] = []"
| "json_fields ((k, None) # ps) = json_fields ps"
| "json_fields ((k, Some v) # ps) = (k, v) # json_fields ps"

section \<open>The document store\<close>

text \<open>
  The documents of the five collections, with the fields the handlers write; a field
  that takes a property of the request body as it is may be \<^verbatim>\<open>undefined\<close>. A habit is
  kept as the object it was inserted as, since its handler spreads the request body into
  it. \<open>ge_userId\<close> is the \<^verbatim>\<open>userId\<close> field the completion summary reads from a group
  entry; \<^verbatim>\<open>POST /api/groupHabitEntries\<close> does not write it.
\<close>

record user_doc =
  user_id :: "objectid option"
  user_username :: "val option"
  user_email :: "val option"
  user_password :: string
  user_createdAt :: int

record group_doc =
  group_id :: "objectid option"
  group_name :: "val option"
  group_description :: "val option"
  group_ownerId :: objectid
  group_memberIds :: "objectid list"
  group_createdAt :: int

record user_entry =
  ue_id :: "objectid option"
  ue_habitId :: objectid
  ue_userId :: objectid
  ue_date :: "int option"
  ue_status :: "val option"
  ue_notes :: "val option"

record group_entry =
  ge_id :: "objectid option"
  ge_habitId :: objectid
  ge_groupId :: objectid
  ge_date :: "int option"
  ge_checkedBy :: "objectid list"
  ge_notes :: val
  ge_userId :: "objectid option"

datatype store_call =
    InsertOne string
  | Find string
  | FindOne string
  | Aggregate string

text \<open>\<open>calls\<close> lists the operations the database received, oldest first.\<close>

record store =
  habits :: "obj list"
  users :: "user_doc list"
  groups :: "group_doc list"
  userHabitEntries :: "user_entry list"
  groupHabitEntries :: "group_entry list"
  calls :: "store_call list"

definition log_call :: "store_call \<Rightarrow> store \<Rightarrow> store" where
  "log_call c st = st\<lparr>calls := calls st @ [c]\<rparr>"

text \<open>
  A BSON date is a 64-bit count of milliseconds. The driver converts the time value of a
  Date to that integer, and the conversion turns the NaN of an Invalid Date into 0.
\<close>

fun bson_date :: "int option \<Rightarrow> int" where
  "bson_date None = 0"
| "bson_date (Some t) = t"

text \<open>
  The driver writes a property whose value is \<^verbatim>\<open>undefined\<close> as null. Of the
  properties the handlers take from the body as they are, only \<^verbatim>\<open>description\<close> of a
  group and \<^verbatim>\<open>notes\<close> of a user entry can be \<^verbatim>\<open>undefined\<close> when the document is
  inserted; the others were found truthy.
\<close>

fun bson_field :: "val option \<Rightarrow> val option" where
  "bson_field None = Some VNull"
| "bson_field (Some v) = Some v"

text \<open>
  \<^verbatim>\<open>insertOne\<close>: the driver gives the document an \<^verbatim>\<open>_id\<close> when it has none (the
  caller's object is updated), and the database appends it unless it raises an error,
  such as a duplicate key (code 11000).
\<close>

definition insertOne_habits ::
  "world \<Rightarrow> nat \<Rightarrow> obj \<Rightarrow> store \<Rightarrow> (js_error + val \<times> obj) \<times> store" where
  "insertOne_habits w k doc st =
     (let st1 = log_call (InsertOne ''habits'') st;
          insertedId = (case map_of doc ''_id'' of
                          None \<Rightarrow> VOid (fresh_id w)
                        | Some VNull \<Rightarrow> VOid (fresh_id w)
                        | Some v \<Rightarrow> v);
          doc1 = (if map_of doc ''_id'' = None \<or> map_of doc ''_id'' = Some VNull
                  then obj_set ''_id'' insertedId doc else doc)
      in case fault w k of
           Some e \<Rightarrow> (Inl e, st1)
         | None \<Rightarrow> (Inr (insertedId, doc1), st1\<lparr>habits := habits st1 @ [doc1]\<rparr>))"

definition insertOne_users ::
  "world \<Rightarrow> nat \<Rightarrow> user_doc \<Rightarrow> store \<Rightarrow> (js_error + objectid \<times> user_doc) \<times> store" where
  "insertOne_users w k doc st =
     (let st1 = log_call (InsertOne ''users'') st;
          doc1 = doc\<lparr>user_id := Some (fresh_id w)\<rparr>
      in case fault w k of
           Some e \<Rightarrow> (Inl e, st1)
         | None \<Rightarrow> (Inr (fresh_id w, doc1), st1\<lparr>users := users st1 @ [doc1]\<rparr>))"

definition insertOne_groups ::
  "world \<Rightarrow> nat \<Rightarrow> group_doc \<Rightarrow> store \<Rightarrow> (js_error + objectid \<times> group_doc) \<times> store" where
  "insertOne_groups w k doc st =
     (let st1 = log_call (InsertOne ''groups'') st;
          doc1 = doc\<lparr>group_id := Some (fresh_id w)\<rparr>
      in case fault w k of
           Some e \<Rightarrow> (Inl e, st1)
         | None \<Rightarrow>
             (Inr (fresh_id w, doc1),
              st1\<lparr>groups :=
                    groups st1
                    @ [doc1\<lparr>group_description := bson_field (group_description doc1)\<rparr>]\<rparr>))"


definition insertOne_groupHabitEntries ::
  "world \<Rightarrow> nat \<Rightarrow> group_entry \<Rightarrow> store \<Rightarrow> (js_error + objectid \<times> group_entry) \<times> store" where
  "insertOne_groupHabitEntries w k doc st =
     (let st1 = log_call (InsertOne ''groupHabitEntries'') st;
          doc1 = doc\<lparr>ge_id := Some (fresh_id w)\<rparr>
      in case fault w k of
           Some e \<Rightarrow> (Inl e, st1)
         | None \<Rightarrow>
             (Inr (fresh_id w, doc1),
              st1\<lparr>groupHabitEntries :=
                    groupHabitEntries st1 @ [doc1\<lparr>ge_date := Some (bson_date (ge_date doc1))\<rparr>]\<rparr>))"

text \<open>
  A read (\<^verbatim>\<open>find\<close>, \<^verbatim>\<open>findOne\<close>, \<^verbatim>\<open>aggregate\<close>) is logged and gives the result
  of its query, unless the database raises an error.
\<close>

definition db_read ::
  "world \<Rightarrow> nat \<Rightarrow> store_call \<Rightarrow> 'a \<Rightarrow> store \<Rightarrow> (js_error + 'a) \<times> store" where
  "db_read w k c result st =
     (case fault w k of
        Some e \<Rightarrow> (Inl e, log_call c st)
      | None \<Rightarrow> (Inr result, log_call c st))"

text \<open>
  A query condition \<^verbatim>\<open>{k: v}\<close> with a plain value \<open>v\<close>: the stored field equals
  \<open>v\<close> or is an array that holds it.
\<close>

fun mongo_eq :: "val option \<Rightarrow> val \<Rightarrow> bool" where
  "mongo_eq None v = False"
| "mongo_eq (Some (VArr xs)) v = (VArr xs = v \<or> v \<in> set xs)"
| "mongo_eq (Some x) v = (x = v)"

section \<open>Documents as JSON\<close>

fun oid_toString :: "objectid \<Rightarrow> string" where
  "oid_toString (ObjectId s) = s"

definition user_json :: "user_doc \<Rightarrow> obj" where
  "user_json u = json_fields
     [(''_id'', map_option VOid (user_id u)),
      (''username'', user_username u),
      (''email'', user_email u),
      (''createdAt'', Some (VDate (Some (user_createdAt u))))]"

definition group_json :: "group_doc \<Rightarrow> val" where
  "group_json g = VObj (json_fields
     [(''name'', group_name g),
      (''description'', group_description g),
      (''ownerId'', Some (VOid (group_ownerId g))),
      (''memberIds'', Some (VArr (map VOid (group_memberIds g)))),
      (''createdAt'', Some (VDate (Some (group_createdAt g)))),
      (''_id'', map_option VOid (group_id g))])"

definition user_entry_json :: "user_entry \<Rightarrow> val" where
  "user_entry_json e = VObj (json_fields
     [(''habitId'', Some (VOid (ue_habitId e))),
      (''userId'', Some (VOid (ue_userId e))),
      (''date'', Some (VDate (ue_date e))),
      (''status'', ue_status e),
      (''notes'', ue_notes e),
      (''_id'', map_option VOid (ue_id e))])"

definition group_entry_json :: "group_entry \<Rightarrow> val" where
  "group_entry_json e = VObj (json_fields
     [(''habitId'', Some (VOid (ge_habitId e))),
      (''groupId'', Some (VOid (ge_groupId e))),
      (''date'', Some (VDate (ge_date e))),
      (''checkedBy'', Some (VArr (map VOid (ge_checkedBy e)))),
      (''notes'', Some (ge_notes e)),
      (''userId'', map_option VOid (ge_userId e)),
      (''_id'', map_option VOid (ge_id e))])"

section \<open>Dates\<close>

text \<open>
  A time value is kept only within 8.64e15 milliseconds of the epoch (\<^verbatim>\<open>TimeClip\<close>);
  beyond it the Date is invalid.
\<close>

definition time_clip :: "int \<Rightarrow> int option" where
  "time_clip t = (if \<bar>t\<bar> \<le> 8640000000000000 then Some t else None)"

definition js_Date :: "lib \<Rightarrow> val option \<Rightarrow> int option" where
  "js_Date L x = (case Date_new L x of None \<Rightarrow> None | Some t \<Rightarrow> time_clip t)"

text \<open>
  \<^verbatim>\<open>d.setUTCHours(h, m, s, ms)\<close> keeps the UTC day of \<open>d\<close> and replaces the time within
  the day; an Invalid Date stays invalid.
\<close>

definition msPerDay :: int where
  "msPerDay = 86400000"

fun setUTCHours :: "int \<Rightarrow> int \<Rightarrow> int \<Rightarrow> int \<Rightarrow> int option \<Rightarrow> int option" where
  "setUTCHours h m s ms None = None"
| "setUTCHours h m s ms (Some t) =
     time_clip (t - t mod msPerDay + (h * 3600000 + m * 60000 + s * 1000 + ms))"

definition startOfDay :: "lib \<Rightarrow> string \<Rightarrow> int option" where
  "startOfDay L dateString = setUTCHours 0 0 0 0 (js_Date L (Some (VStr dateString)))"

definition endOfDay :: "lib \<Rightarrow> string \<Rightarrow> int option" where
  "endOfDay L dateString = setUTCHours 23 59 59 999 (js_Date L (Some (VStr dateString)))"

text \<open>The condition \<^verbatim>\<open>date: {$gte: startOfDay, $lte: endOfDay}\<close> on a stored date.\<close>

definition date_between :: "int option \<Rightarrow> int option \<Rightarrow> int option \<Rightarrow> bool" where
  "date_between lo hi d = (bson_date lo \<le> bson_date d \<and> bson_date d \<le> bson_date hi)"

section \<open>Arrays of identifiers\<close>

text \<open>
  \<^verbatim>\<open>new ObjectId(x)\<close> when the request has called the constructor \<open>k\<close> times before,
  \<open>k\<close> at least 1: a string gives what it gives on every call, another argument what the
  constructor generates or throws at this call.
\<close>

fun ObjectId_again :: "lib \<Rightarrow> nat \<Rightarrow> val option \<Rightarrow> js_error + objectid" where
  "ObjectId_again L k (Some (VStr s)) = ObjectId_new L (Some (VStr s))"
| "ObjectId_again L k x = ObjectId_later L k x"

text \<open>
  \<^verbatim>\<open>xs.map(id => new ObjectId(id))\<close> after \<open>k\<close> earlier calls of the constructor; it stops
  at the first element that throws.
\<close>

fun map_ObjectId :: "lib \<Rightarrow> nat \<Rightarrow> val list \<Rightarrow> js_error + objectid list" where
  "map_ObjectId L k [] = Inr []"
| "map_ObjectId L k (x # xs) =
     (case ObjectId_again L k (Some x) of
        Inl e \<Rightarrow> Inl e
      | Inr i \<Rightarrow>
          (case map_ObjectId L (Suc k) xs of Inl e \<Rightarrow> Inl e | Inr js \<Rightarrow> Inr (i # js)))"

text \<open>Only an array has a \<^verbatim>\<open>map\<close> method; calling it on another value is a TypeError.\<close>

fun js_map_ObjectId :: "lib \<Rightarrow> nat \<Rightarrow> val option \<Rightarrow> js_error + objectid list" where
  "js_map_ObjectId L k (Some (VArr xs)) = map_ObjectId L k xs"
| "js_map_ObjectId L k v = Inl (TypeError ''map is not a function'')"

text \<open>
  \<^verbatim>\<open>for (const id of x)\<close> runs over the elements of an array or the characters of a
  string; another value is not iterable.
\<close>

fun for_of :: "val option \<Rightarrow> js_error + val list" where
  "for_of (Some (VArr xs)) = Inr xs"
| "for_of (Some (VStr s)) = Inr (map (\<lambda>c. VStr [c]) s)"
| "for_of v = Inl (TypeError ''value is not iterable'')"

text \<open>
  The validation loop over a list of identifiers: the first one that is not valid ends
  the request with status 400 and the given message followed by the identifier.
\<close>

definition first_invalid :: "lib \<Rightarrow> val list \<Rightarrow> val option" where
  "first_invalid L xs = find (\<lambda>id. \<not> ObjectId_isValid L (Some id)) xs"

definition validate_ids :: "lib \<Rightarrow> string \<Rightarrow> val option \<Rightarrow> js_error + response option" where
  "validate_ids L m x =
     (if truthy x then
        (case for_of x of
           Inl e \<Rightarrow> Inl e
         | Inr xs \<Rightarrow>
             (case first_invalid L xs of
                Some bad \<Rightarrow> Inr (Some (json 400 (message (m @ String_of L (Some bad)))))
              | None \<Rightarrow> Inr None))
      else Inr None)"

section \<open>POST /api/habits\<close>

definition habitToInsert :: "val \<Rightarrow> objectid \<Rightarrow> objectid \<Rightarrow> int \<Rightarrow> obj" where
  "habitToInsert newHabitData createdBy assignedId t =
     obj_set ''createdAt'' (VDate (Some t))
       (obj_set ''assignedTo''
          (VObj (json_fields [(''type'', field2 newHabitData ''assignedTo'' ''type''),
                              (''id'', Some (VOid assignedId))]))
          (obj_set ''createdBy'' (VOid createdBy) (spread newHabitData)))"

definition post_habits_try ::
  "lib \<Rightarrow> world \<Rightarrow> store \<Rightarrow> val \<Rightarrow> (js_error + response) \<times> store" where
  "post_habits_try L w st newHabitData =
     (if \<not> ObjectId_isValid L (field newHabitData ''createdBy'')
         \<or> \<not> ObjectId_isValid L (field2 newHabitData ''assignedTo'' ''id'')
      then (Inr (json 400 (message ''Invalid ID format for createdBy or assignedTo.id.'')), st)
      else
        (case ObjectId_new L (field newHabitData ''createdBy'') of
           Inl e \<Rightarrow> (Inl e, st)
         | Inr createdBy \<Rightarrow>
             (case ObjectId_again L 1 (field2 newHabitData ''assignedTo'' ''id'') of
                Inl e \<Rightarrow> (Inl e, st)
              | Inr assignedId \<Rightarrow>
                  (case insertOne_habits w 0
                          (habitToInsert newHabitData createdBy assignedId (now w)) st of
                     (Inl e, st') \<Rightarrow> (Inl e, st')
                   | (Inr (insertedId, doc), st') \<Rightarrow>
                       (Inr (json 201 (VObj [(''message'', VStr ''Habit created successfully!''),
                                             (''insertedId'', insertedId),
                                             (''insertedHabit'', VObj doc)])), st')))))"

definition post_habits :: "lib \<Rightarrow> world \<Rightarrow> store \<Rightarrow> val \<Rightarrow> response \<times> store" where
  "post_habits L w st newHabitData =
     (if \<not> db_connected w then (json 500 (message ''Database not connected.''), st)
      else if \<not> truthy (Some newHabitData) \<or> \<not> truthy (field newHabitData ''title'')
              \<or> \<not> truthy (field newHabitData ''createdBy'')
              \<or> \<not> truthy (field newHabitData ''assignedTo'')
              \<or> \<not> truthy (field newHabitData ''schedule'')
      then (json 400 (message
              ''Missing required habit data (title, createdBy, assignedTo, or schedule).''), st)
      else if \<not> truthy (field2 newHabitData ''assignedTo'' ''type'')
              \<or> \<not> truthy (field2 newHabitData ''assignedTo'' ''id'')
      then (json 400 (message ''Invalid assignedTo format.''), st)
      else
        (case post_habits_try L w st newHabitData of
           (Inr res, st') \<Rightarrow> (res, st')
         | (Inl e, st') \<Rightarrow> (json 500 (message_error ''Failed to create habit.'' e), st')))"

section \<open>POST /api/users\<close>

definition post_users_try ::
  "lib \<Rightarrow> world \<Rightarrow> store \<Rightarrow> val \<Rightarrow> (js_error + response) \<times> store" where
  "post_users_try L w st newUserData =
     (case bcrypt_hash L (field newUserData ''password'') (salt w) of
        Inl e \<Rightarrow> (Inl e, st)
      | Inr hashedPassword \<Rightarrow>
          (let userToInsert =
                 \<lparr>user_id = None,
                  user_username = field newUserData ''username'',
                  user_email = field newUserData ''email'',
                  user_password = hashedPassword,
                  user_createdAt = now w\<rparr>
           in case insertOne_users w 0 userToInsert st of
                (Inl e, st') \<Rightarrow> (Inl e, st')
              | (Inr (insertedId, doc), st') \<Rightarrow>
                  (Inr (json 201 (VObj (json_fields
                          [(''message'', Some (VStr ''User created successfully!'')),
                           (''insertedId'', Some (VOid insertedId)),
                           (''username'', user_username userToInsert),
                           (''email'', user_email userToInsert)]))), st')))"

definition post_users :: "lib \<Rightarrow> world \<Rightarrow> store \<Rightarrow> val \<Rightarrow> response \<times> store" where
  "post_users L w st newUserData =
     (if \<not> db_connected w then (json 500 (message ''Database not connected.''), st)
      else if \<not> truthy (Some newUserData) \<or> \<not> truthy (field newUserData ''username'')
              \<or> \<not> truthy (field newUserData ''email'')
              \<or> \<not> truthy (field newUserData ''password'')
      then (json 400 (message ''Missing required user data (username, email, password).''), st)
      else
        (case post_users_try L w st newUserData of
           (Inr res, st') \<Rightarrow> (res, st')
         | (Inl e, st') \<Rightarrow>
             (if error_code e = Some 11000
              then (json 409 (message ''User with that email or username already exists.''), st')
              else (json 500 (message_error ''Failed to create user.'' e), st'))))"

section \<open>POST /api/auth/login\<close>

text \<open>
  The body is what \<^verbatim>\<open>express.json()\<close> leaves in \<^verbatim>\<open>req.body\<close>, an object or an array,
  so reading \<^verbatim>\<open>email\<close> and \<^verbatim>\<open>password\<close> from it does not throw.
  \<^verbatim>\<open>findOne({ email: email })\<close> gives the first user whose email satisfies the
  condition.
\<close>

definition findOne_user_by_email :: "lib \<Rightarrow> val option \<Rightarrow> store \<Rightarrow> user_doc option" where
  "findOne_user_by_email L email st =
     find (\<lambda>u. case user_email u of
                 None \<Rightarrow> False
               | Some v \<Rightarrow> mongo_matches L email v) (users st)"

definition post_login_try ::
  "lib \<Rightarrow> world \<Rightarrow> store \<Rightarrow> val option \<Rightarrow> val option \<Rightarrow> (js_error + response) \<times> store" where
  "post_login_try L w st email password =
     (case db_read w 0 (FindOne ''users'') (findOne_user_by_email L email st) st of
        (Inl e, st') \<Rightarrow> (Inl e, st')
      | (Inr None, st') \<Rightarrow> (Inr (json 401 (message ''Invalid email or password.'')), st')
      | (Inr (Some user), st') \<Rightarrow>
          (case bcrypt_compare L password (user_password user) of
             Inl e \<Rightarrow> (Inl e, st')
           | Inr isMatch \<Rightarrow>
               (if \<not> isMatch
                then (Inr (json 401 (message ''Invalid email or password.'')), st')
                else (Inr (json 200 (VObj
                        [(''message'', VStr ''Login successful!''),
                         (''token'', VStr (jwt_sign L (VObj (json_fields
                                             [(''id'', map_option VOid (user_id user)),
                                              (''username'', user_username user)]))
                                             (now w)))])),
                      st'))))"

definition post_login :: "lib \<Rightarrow> world \<Rightarrow> store \<Rightarrow> val \<Rightarrow> response \<times> store" where
  "post_login L w st body =
     (if \<not> db_connected w then (json 500 (message ''Database not connected.''), st)
      else if \<not> truthy (field body ''email'') \<or> \<not> truthy (field body ''password'')
      then (json 400 (message ''Missing email or password.''), st)
      else
        (case post_login_try L w st (field body ''email'') (field body ''password'') of
           (Inr res, st') \<Rightarrow> (res, st')
         | (Inl e, st') \<Rightarrow>
             (json 500 (message_error ''An error occurred during login.'' e), st')))"

section \<open>POST /api/groups\<close>

text \<open>
  The object literal \<^verbatim>\<open>groupToInsert\<close>: its properties are evaluated in order, so the
  identifiers are converted before the creation time is read. \<^verbatim>\<open>ownerId\<close> is converted
  by the first call of the constructor; the members, or the owner once more when there
  are none, by the calls after it.
\<close>

definition groupToInsert :: "lib \<Rightarrow> world \<Rightarrow> val \<Rightarrow> js_error + group_doc" where
  "groupToInsert L w newGroupData =
     (case ObjectId_new L (field newGroupData ''ownerId'') of
        Inl e \<Rightarrow> Inl e
      | Inr ownerId \<Rightarrow>
          (case (if truthy (field newGroupData ''memberIds'')
                 then js_map_ObjectId L 1 (field newGroupData ''memberIds'')
                 else (case ObjectId_again L 1 (field newGroupData ''ownerId'') of
                         Inl e \<Rightarrow> Inl e
                       | Inr i \<Rightarrow> Inr [i])) of
             Inl e \<Rightarrow> Inl e
           | Inr memberIds \<Rightarrow>
               Inr \<lparr>group_id = None,
                    group_name = field newGroupData ''name'',
                    group_description = field newGroupData ''description'',
                    group_ownerId = ownerId,
                    group_memberIds = memberIds,
                    group_createdAt = now w\<rparr>))"

definition post_groups_try ::
  "lib \<Rightarrow> world \<Rightarrow> store \<Rightarrow> val \<Rightarrow> (js_error + response) \<times> store" where
  "post_groups_try L w st newGroupData =
     (if \<not> ObjectId_isValid L (field newGroupData ''ownerId'')
      then (Inr (json 400 (message (''Invalid ownerId format: ''
                                     @ String_of L (field newGroupData ''ownerId'')))), st)
      else
        (case groupToInsert L w newGroupData of
           Inl e \<Rightarrow> (Inl e, st)
         | Inr doc \<Rightarrow>
             (case validate_ids L ''Invalid memberId format: ''
                     (field newGroupData ''memberIds'') of
                Inl e \<Rightarrow> (Inl e, st)
              | Inr (Some res) \<Rightarrow> (Inr res, st)
              | Inr None \<Rightarrow>
                  (case insertOne_groups w 0 doc st of
                     (Inl e, st') \<Rightarrow> (Inl e, st')
                   | (Inr (insertedId, doc'), st') \<Rightarrow>
                       (Inr (json 201 (VObj [(''message'', VStr ''Group created successfully!''),
                                             (''insertedId'', VOid insertedId),
                                             (''insertedGroup'', group_json doc')])), st')))))"

definition post_groups :: "lib \<Rightarrow> world \<Rightarrow> store \<Rightarrow> val \<Rightarrow> response \<times> store" where
  "post_groups L w st newGroupData =
     (if \<not> db_connected w then (json 500 (message ''Database not connected.''), st)
      else if \<not> truthy (Some newGroupData) \<or> \<not> truthy (field newGroupData ''name'')
              \<or> \<not> truthy (field newGroupData ''ownerId'')
      then (json 400 (message ''Missing required group data (name, ownerId).''), st)
      else
        (case post_groups_try L w st newGroupData of
           (Inr res, st') \<Rightarrow> (res, st')
         | (Inl e, st') \<Rightarrow>
             (if error_code e = Some 11000
              then (json 409 (message ''Group name already exists.''), st')
              else (json 500 (message_error ''Failed to create group.'' e), st'))))"

section \<open>POST /api/userHabitEntries and POST /api/groupHabitEntries\<close>



text \<open>\<^verbatim>\<open>newEntryData.notes || {}\<close>\<close>

definition notes_or_empty :: "val option \<Rightarrow> val" where
  "notes_or_empty x = (case x of Some v \<Rightarrow> (if truthy x then v else VObj []) | None \<Rightarrow> VObj [])"

definition post_groupHabitEntries_try ::
  "lib \<Rightarrow> world \<Rightarrow> store \<Rightarrow> val \<Rightarrow> (js_error + response) \<times> store" where
  "post_groupHabitEntries_try L w st newEntryData =
     (if \<not> ObjectId_isValid L (field newEntryData ''habitId'')
         \<or> \<not> ObjectId_isValid L (field newEntryData ''groupId'')
      then (Inr (json 400 (message ''Invalid ID format for habitId or groupId.'')), st)
      else
        (case validate_ids L ''Invalid checkedBy ID format: ''
                (field newEntryData ''checkedBy'') of
           Inl e \<Rightarrow> (Inl e, st)
         | Inr (Some res) \<Rightarrow> (Inr res, st)
         | Inr None \<Rightarrow>
             (case ObjectId_new L (field newEntryData ''habitId'') of
                Inl e \<Rightarrow> (Inl e, st)
              | Inr habitId \<Rightarrow>
                  (case ObjectId_again L 1 (field newEntryData ''groupId'') of
                     Inl e \<Rightarrow> (Inl e, st)
                   | Inr groupId \<Rightarrow>
                       (case (if truthy (field newEntryData ''checkedBy'')
                              then js_map_ObjectId L 2 (field newEntryData ''checkedBy'')
                              else Inr []) of
                          Inl e \<Rightarrow> (Inl e, st)
                        | Inr checkedBy \<Rightarrow>
                            (let entryToInsert =
                                   \<lparr>ge_id = None, ge_habitId = habitId, ge_groupId = groupId,
                                    ge_date = js_Date L (field newEntryData ''date''),
                                    ge_checkedBy = checkedBy,
                                    ge_notes = notes_or_empty (field newEntryData ''notes''),
                                    ge_userId = None\<rparr>
                             in case insertOne_groupHabitEntries w 0 entryToInsert st of
                                  (Inl e, st') \<Rightarrow> (Inl e, st')
                                | (Inr (insertedId, doc), st') \<Rightarrow>
                                    (Inr (json 201 (VObj
                                       [(''message'',
                                         VStr ''Group habit entry created successfully!''),
                                        (''insertedId'', VOid insertedId),
                                        (''insertedEntry'', group_entry_json doc)])),
                                     st')))))))"

definition post_groupHabitEntries :: "lib \<Rightarrow> world \<Rightarrow> store \<Rightarrow> val \<Rightarrow> response \<times> store" where
  "post_groupHabitEntries L w st newEntryData =
     (if \<not> db_connected w then (json 500 (message ''Database not connected.''), st)
      else if \<not> truthy (Some newEntryData) \<or> \<not> truthy (field newEntryData ''habitId'')
              \<or> \<not> truthy (field newEntryData ''groupId'')
              \<or> \<not> truthy (field newEntryData ''date'')
      then (json 400 (message ''Missing required entry data (habitId, groupId, or date).''), st)
      else
        (case post_groupHabitEntries_try L w st newEntryData of
           (Inr res, st') \<Rightarrow> (res, st')
         | (Inl e, st') \<Rightarrow>
             (if range_or_type_error e
              then (json 400 (message ''Invalid date format provided.''), st')
              else (json 500 (message_error ''Failed to create group habit entry.'' e), st'))))"

section \<open>The list endpoints\<close>

text \<open>
  The conditions of the queries on the habits collection. A dotted path
  \<^verbatim>\<open>'assignedTo.id'\<close> is read inside the \<^verbatim>\<open>assignedTo\<close> object of the habit.
\<close>

definition personal_habit :: "objectid \<Rightarrow> obj \<Rightarrow> bool" where
  "personal_habit userObjectId h =
     (mongo_eq (map_of h ''createdBy'') (VOid userObjectId)
      \<or> (mongo_eq (field2 (VObj h) ''assignedTo'' ''id'') (VOid userObjectId)
          \<and> mongo_eq (field2 (VObj h) ''assignedTo'' ''type'') (VStr ''user'')))"

definition group_habit :: "objectid \<Rightarrow> obj \<Rightarrow> bool" where
  "group_habit groupObjectId h =
     (mongo_eq (field2 (VObj h) ''assignedTo'' ''type'') (VStr ''group'')
      \<and> mongo_eq (field2 (VObj h) ''assignedTo'' ''id'') (VOid groupObjectId))"

definition get_user_habits_try ::
  "lib \<Rightarrow> world \<Rightarrow> store \<Rightarrow> string \<Rightarrow> (js_error + response) \<times> store" where
  "get_user_habits_try L w st userId =
     (if \<not> ObjectId_isValid L (Some (VStr userId))
      then (Inr (json 400 (message ''Invalid user ID format.'')), st)
      else
        (case ObjectId_new L (Some (VStr userId)) of
           Inl e \<Rightarrow> (Inl e, st)
         | Inr userObjectId \<Rightarrow>
             (case db_read w 0 (Find ''habits'')
                     (filter (personal_habit userObjectId) (habits st)) st of
                (Inl e, st') \<Rightarrow> (Inl e, st')
              | (Inr personalHabits, st') \<Rightarrow>
                  (Inr (json 200 (VArr (map VObj personalHabits))), st'))))"

definition get_user_habits :: "lib \<Rightarrow> world \<Rightarrow> store \<Rightarrow> string \<Rightarrow> response \<times> store" where
  "get_user_habits L w st userId =
     (if \<not> db_connected w then (json 500 (message ''Database not connected.''), st)
      else if userId = [] then (json 400 (message ''Missing user ID in parameters.''), st)
      else
        (case get_user_habits_try L w st userId of
           (Inr res, st') \<Rightarrow> (res, st')
         | (Inl e, st') \<Rightarrow>
             (json 500 (message_error ''Failed to fetch personal habits.'' e), st')))"

definition get_user_groups_try ::
  "lib \<Rightarrow> world \<Rightarrow> store \<Rightarrow> string \<Rightarrow> (js_error + response) \<times> store" where
  "get_user_groups_try L w st userId =
     (if \<not> ObjectId_isValid L (Some (VStr userId))
      then (Inr (json 400 (message ''Invalid user ID format.'')), st)
      else
        (case ObjectId_new L (Some (VStr userId)) of
           Inl e \<Rightarrow> (Inl e, st)
         | Inr userObjectId \<Rightarrow>
             (case db_read w 0 (Find ''groups'')
                     (filter (\<lambda>g. userObjectId \<in> set (group_memberIds g)) (groups st)) st of
                (Inl e, st') \<Rightarrow> (Inl e, st')
              | (Inr userGroups, st') \<Rightarrow>
                  (Inr (json 200 (VArr (map group_json userGroups))), st'))))"

definition get_user_groups :: "lib \<Rightarrow> world \<Rightarrow> store \<Rightarrow> string \<Rightarrow> response \<times> store" where
  "get_user_groups L w st userId =
     (if \<not> db_connected w then (json 500 (message ''Database not connected.''), st)
      else if userId = [] then (json 400 (message ''Missing user ID in parameters.''), st)
      else
        (case get_user_groups_try L w st userId of
           (Inr res, st') \<Rightarrow> (res, st')
         | (Inl e, st') \<Rightarrow>
             (json 500 (message_error ''Failed to fetch user groups.'' e), st')))"

definition get_group_habits_try ::
  "lib \<Rightarrow> world \<Rightarrow> store \<Rightarrow> string \<Rightarrow> (js_error + response) \<times> store" where
  "get_group_habits_try L w st groupId =
     (if \<not> ObjectId_isValid L (Some (VStr groupId))
      then (Inr (json 400 (message ''Invalid group ID format.'')), st)
      else
        (case ObjectId_new L (Some (VStr groupId)) of
           Inl e \<Rightarrow> (Inl e, st)
         | Inr groupObjectId \<Rightarrow>
             (case db_read w 0 (Find ''habits'')
                     (filter (group_habit groupObjectId) (habits st)) st of
                (Inl e, st') \<Rightarrow> (Inl e, st')
              | (Inr groupHabits, st') \<Rightarrow>
                  (Inr (json 200 (VArr (map VObj groupHabits))), st'))))"

definition get_group_habits :: "lib \<Rightarrow> world \<Rightarrow> store \<Rightarrow> string \<Rightarrow> response \<times> store" where
  "get_group_habits L w st groupId =
     (if \<not> db_connected w then (json 500 (message ''Database not connected.''), st)
      else if groupId = [] then (json 400 (message ''Missing group ID in parameters.''), st)
      else
        (case get_group_habits_try L w st groupId of
           (Inr res, st') \<Rightarrow> (res, st')
         | (Inl e, st') \<Rightarrow>
             (json 500 (message_error ''Failed to fetch group habits.'' e), st')))"

section \<open>The entries of a day\<close>

definition user_entries_of_day :: "objectid \<Rightarrow> int option \<Rightarrow> int option \<Rightarrow> store \<Rightarrow> user_entry list" where
  "user_entries_of_day userObjectId lo hi st =
     filter (\<lambda>e. ue_userId e = userObjectId \<and> date_between lo hi (ue_date e))
       (userHabitEntries st)"

definition group_entries_of_day :: "objectid \<Rightarrow> int option \<Rightarrow> int option \<Rightarrow> store \<Rightarrow> group_entry list" where
  "group_entries_of_day groupObjectId lo hi st =
     filter (\<lambda>e. ge_groupId e = groupObjectId \<and> date_between lo hi (ge_date e))
       (groupHabitEntries st)"

definition get_user_habitEntries_try ::
  "lib \<Rightarrow> world \<Rightarrow> store \<Rightarrow> string \<Rightarrow> string \<Rightarrow> (js_error + response) \<times> store" where
  "get_user_habitEntries_try L w st userId dateString =
     (if \<not> ObjectId_isValid L (Some (VStr userId))
      then (Inr (json 400 (message ''Invalid user ID format.'')), st)
      else
        (case ObjectId_new L (Some (VStr userId)) of
           Inl e \<Rightarrow> (Inl e, st)
         | Inr userObjectId \<Rightarrow>
             (case db_read w 0 (Find ''userHabitEntries'')
                     (user_entries_of_day userObjectId
                        (startOfDay L dateString) (endOfDay L dateString) st) st of
                (Inl e, st') \<Rightarrow> (Inl e, st')
              | (Inr entries, st') \<Rightarrow>
                  (Inr (json 200 (VArr (map user_entry_json entries))), st'))))"

definition get_user_habitEntries ::
  "lib \<Rightarrow> world \<Rightarrow> store \<Rightarrow> string \<Rightarrow> string \<Rightarrow> response \<times> store" where
  "get_user_habitEntries L w st userId dateString =
     (if \<not> db_connected w then (json 500 (message ''Database not connected.''), st)
      else if userId = [] \<or> dateString = []
      then (json 400 (message ''Missing user ID or date in parameters.''), st)
      else
        (case get_user_habitEntries_try L w st userId dateString of
           (Inr res, st') \<Rightarrow> (res, st')
         | (Inl e, st') \<Rightarrow>
             (if range_or_type_error e
              then (json 400 (message ''Invalid date format provided. Use YYYY-MM-DD.''), st')
              else (json 500 (message_error ''Failed to fetch user habit entries.'' e), st'))))"

definition get_group_habitEntries_try ::
  "lib \<Rightarrow> world \<Rightarrow> store \<Rightarrow> string \<Rightarrow> string \<Rightarrow> (js_error + response) \<times> store" where
  "get_group_habitEntries_try L w st groupId dateString =
     (if \<not> ObjectId_isValid L (Some (VStr groupId))
      then (Inr (json 400 (message ''Invalid group ID format.'')), st)
      else
        (case ObjectId_new L (Some (VStr groupId)) of
           Inl e \<Rightarrow> (Inl e, st)
         | Inr groupObjectId \<Rightarrow>
             (case db_read w 0 (Find ''groupHabitEntries'')
                     (group_entries_of_day groupObjectId
                        (startOfDay L dateString) (endOfDay L dateString) st) st of
                (Inl e, st') \<Rightarrow> (Inl e, st')
              | (Inr entries, st') \<Rightarrow>
                  (Inr (json 200 (VArr (map group_entry_json entries))), st'))))"

definition get_group_habitEntries ::
  "lib \<Rightarrow> world \<Rightarrow> store \<Rightarrow> string \<Rightarrow> string \<Rightarrow> response \<times> store" where
  "get_group_habitEntries L w st groupId dateString =
     (if \<not> db_connected w then (json 500 (message ''Database not connected.''), st)
      else if groupId = [] \<or> dateString = []
      then (json 400 (message ''Missing group ID or date in parameters.''), st)
      else
        (case get_group_habitEntries_try L w st groupId dateString of
           (Inr res, st') \<Rightarrow> (res, st')
         | (Inl e, st') \<Rightarrow>
             (if range_or_type_error e
              then (json 400 (message ''Invalid date format provided. Use YYYY-MM-DD.''), st')
              else (json 500 (message_error ''Failed to fetch group habit entries.'' e), st'))))"

section \<open>GET /api/groups/:groupId/members/completion/:date\<close>

text \<open>
  Step 5 of the handler: \<^verbatim>\<open>userCompletionCounts\<close> maps the string of a user
  identifier to a \<^verbatim>\<open>Set\<close> of habit identifier strings, kept here as a list without
  repetitions. Reading \<^verbatim>\<open>entry.userId.toString()\<close> on an entry without a
  \<^verbatim>\<open>userId\<close> is a TypeError.
\<close>

fun userCompletionCounts ::
  "group_entry list \<Rightarrow> (string \<rightharpoonup> string list) \<Rightarrow> js_error + (string \<rightharpoonup> string list)" where
  "userCompletionCounts [] m = Inr m"
| "userCompletionCounts (entry # es) m =
     (case ge_userId entry of
        None \<Rightarrow> Inl (TypeError ''Cannot read properties of undefined (reading toString)'')
      | Some u \<Rightarrow>
          (let userIdString = oid_toString u;
               m1 = (if m userIdString = None then m(userIdString \<mapsto> []) else m)
           in userCompletionCounts es
                (m1(userIdString \<mapsto>
                      List.insert (oid_toString (ge_habitId entry))
                        (case m1 userIdString of None \<Rightarrow> [] | Some habitSet \<Rightarrow> habitSet)))))"

text \<open>Step 6: each member with the two counts added; the password is not among the
  fields the query returned.\<close>

fun membersWithCompletion ::
  "(string \<rightharpoonup> string list) \<Rightarrow> nat \<Rightarrow> user_doc list \<Rightarrow> js_error + val list" where
  "membersWithCompletion m totalGroupHabits [] = Inr []"
| "membersWithCompletion m totalGroupHabits (member # ms) =
     (case user_id member of
        None \<Rightarrow> Inl (TypeError ''Cannot read properties of undefined (reading toString)'')
      | Some i \<Rightarrow>
          (let memberIdString = oid_toString i;
               completedCount = (case m memberIdString of
                                   None \<Rightarrow> 0
                                 | Some habitSet \<Rightarrow> length habitSet)
           in case membersWithCompletion m totalGroupHabits ms of
                Inl e \<Rightarrow> Inl e
              | Inr rest \<Rightarrow>
                  Inr (VObj (user_json member
                             @ [(''completedGroupHabits'', VNum (int completedCount)),
                                (''totalGroupHabits'', VNum (int totalGroupHabits))])
                       # rest)))"

definition get_members_completion_try ::
  "lib \<Rightarrow> world \<Rightarrow> store \<Rightarrow> string \<Rightarrow> string \<Rightarrow> (js_error + response) \<times> store" where
  "get_members_completion_try L w st groupId dateString =
     (if \<not> ObjectId_isValid L (Some (VStr groupId))
      then (Inr (json 400 (message ''Invalid group ID format.'')), st)
      else
        (case ObjectId_new L (Some (VStr groupId)) of
           Inl e \<Rightarrow> (Inl e, st)
         | Inr groupObjectId \<Rightarrow>
         (case db_read w 0 (FindOne ''groups'')
                 (find (\<lambda>g. group_id g = Some groupObjectId) (groups st)) st of
            (Inl e, st1) \<Rightarrow> (Inl e, st1)
          | (Inr None, st1) \<Rightarrow> (Inr (json 404 (message ''Group not found.'')), st1)
          | (Inr (Some grp), st1) \<Rightarrow>
          (case db_read w 1 (Find ''users'')
                  (filter (\<lambda>u. case user_id u of
                                 None \<Rightarrow> False
                               | Some i \<Rightarrow> i \<in> set (group_memberIds grp)) (users st1)) st1 of
             (Inl e, st2) \<Rightarrow> (Inl e, st2)
           | (Inr members, st2) \<Rightarrow>
           (case db_read w 2 (Find ''habits'')
                   (filter (group_habit groupObjectId) (habits st2)) st2 of
              (Inl e, st3) \<Rightarrow> (Inl e, st3)
            | (Inr groupHabits, st3) \<Rightarrow>
            (case db_read w 3 (Find ''groupHabitEntries'')
                    (group_entries_of_day groupObjectId
                       (startOfDay L dateString) (endOfDay L dateString) st3) st3 of
               (Inl e, st4) \<Rightarrow> (Inl e, st4)
             | (Inr completedEntries, st4) \<Rightarrow>
             (case userCompletionCounts completedEntries Map.empty of
                Inl e \<Rightarrow> (Inl e, st4)
              | Inr counts \<Rightarrow>
              (case membersWithCompletion counts (length groupHabits) members of
                 Inl e \<Rightarrow> (Inl e, st4)
               | Inr result \<Rightarrow> (Inr (json 200 (VArr result)), st4)))))))))"

definition get_members_completion ::
  "lib \<Rightarrow> world \<Rightarrow> store \<Rightarrow> string \<Rightarrow> string \<Rightarrow> response \<times> store" where
  "get_members_completion L w st groupId dateString =
     (if \<not> db_connected w then (json 500 (message ''Database not connected.''), st)
      else if groupId = [] \<or> dateString = []
      then (json 400 (message ''Missing group ID or date in parameters.''), st)
      else
        (case get_members_completion_try L w st groupId dateString of
           (Inr res, st') \<Rightarrow> (res, st')
         | (Inl e, st') \<Rightarrow>
             (if range_or_type_error e
              then (json 400 (message ''Invalid date format provided. Use YYYY-MM-DD.''), st')
              else (json 500 (message_error
                      ''Failed to fetch group members with completion status.'' e), st'))))"

section \<open>GET /api/users/:userId/mostLoggedHabit\<close>

text \<open>
  The stages of the aggregation pipeline. \<^verbatim>\<open>$group\<close> gives one document per habit
  identifier with the number of the user's entries that name it. \<^verbatim>\<open>$lookup\<close> with
  \<^verbatim>\<open>$unwind\<close> gives one document per habit whose \<^verbatim>\<open>_id\<close> is that identifier, and
  none when there is no such habit. The database fixes the order of documents only as
  far as the sort keys do; here a sort keeps documents with equal keys in the order it
  found them.
\<close>

definition match_user :: "objectid \<Rightarrow> user_entry list \<Rightarrow> user_entry list" where
  "match_user userObjectId es = filter (\<lambda>e. ue_userId e = userObjectId) es"

definition group_by_habit :: "user_entry list \<Rightarrow> (objectid \<times> nat) list" where
  "group_by_habit es =
     map (\<lambda>h. (h, length (filter (\<lambda>e. ue_habitId e = h) es))) (remdups (map ue_habitId es))"

definition sort_count_desc :: "(objectid \<times> nat) list \<Rightarrow> (objectid \<times> nat) list" where
  "sort_count_desc gs = sort_key (\<lambda>(h, c). - int c) gs"

definition lookup_unwind :: "obj list \<Rightarrow> (objectid \<times> nat) list \<Rightarrow> (nat \<times> obj) list" where
  "lookup_unwind hs gs =
     concat (map (\<lambda>(h, c). map (\<lambda>habitDetails. (c, habitDetails))
                              (filter (\<lambda>d. map_of d ''_id'' = Some (VOid h)) hs)) gs)"

text \<open>
  The place of a \<^verbatim>\<open>createdAt\<close> value in the database's sort order: by type first
  (a missing field and null, then numbers, strings, objects, arrays, identifiers,
  booleans and dates), then by value for numbers, booleans and dates. Every habit
  written by \<^verbatim>\<open>POST /api/habits\<close> has a date there.
\<close>

fun bson_order :: "val option \<Rightarrow> nat \<times> int" where
  "bson_order None = (1, 0)"
| "bson_order (Some VNull) = (1, 0)"
| "bson_order (Some (VNum n)) = (2, n)"
| "bson_order (Some (VStr s)) = (3, 0)"
| "bson_order (Some (VObj ps)) = (4, 0)"
| "bson_order (Some (VArr xs)) = (5, 0)"
| "bson_order (Some (VOid i)) = (7, 0)"
| "bson_order (Some (VBool b)) = (8, if b then 1 else 0)"
| "bson_order (Some (VDate d)) = (9, bson_date d)"

definition sort_count_createdAt :: "(nat \<times> obj) list \<Rightarrow> (nat \<times> obj) list" where
  "sort_count_createdAt ds =
     sort_key (\<lambda>(c, habitDetails). (- int c, bson_order (map_of habitDetails ''createdAt''))) ds"

definition project_habit :: "nat \<times> obj \<Rightarrow> val" where
  "project_habit d =
     (case d of (c, habitDetails) \<Rightarrow>
        VObj (json_fields [(''_id'', map_of habitDetails ''_id''),
                           (''title'', map_of habitDetails ''title''),
                           (''completionCount'', Some (VNum (int c)))]))"

definition pipeline :: "objectid \<Rightarrow> store \<Rightarrow> val list" where
  "pipeline userObjectId st =
     map project_habit
       (take 1
          (sort_count_createdAt
             (lookup_unwind (habits st)
                (sort_count_desc
                   (group_by_habit (match_user userObjectId (userHabitEntries st)))))))"

definition get_mostLoggedHabit_try ::
  "lib \<Rightarrow> world \<Rightarrow> store \<Rightarrow> string \<Rightarrow> (js_error + response) \<times> store" where
  "get_mostLoggedHabit_try L w st userId =
     (if \<not> ObjectId_isValid L (Some (VStr userId))
      then (Inr (json 400 (message ''Invalid user ID format.'')), st)
      else
        (case ObjectId_new L (Some (VStr userId)) of
           Inl e \<Rightarrow> (Inl e, st)
         | Inr userObjectId \<Rightarrow>
             (case db_read w 0 (Aggregate ''userHabitEntries'') (pipeline userObjectId st) st of
                (Inl e, st') \<Rightarrow> (Inl e, st')
              | (Inr [], st') \<Rightarrow>
                  (Inr (json 404 (message ''No logged habits found for this user.'')), st')
              | (Inr (first # rest), st') \<Rightarrow> (Inr (json 200 first), st'))))"

definition get_mostLoggedHabit :: "lib \<Rightarrow> world \<Rightarrow> store \<Rightarrow> string \<Rightarrow> response \<times> store" where
  "get_mostLoggedHabit L w st userId =
     (if \<not> db_connected w then (json 500 (message ''Database not connected.''), st)
      else if userId = [] then (json 400 (message ''Missing user ID in parameters.''), st)
      else
        (case get_mostLoggedHabit_try L w st userId of
           (Inr res, st') \<Rightarrow> (res, st')
         | (Inl e, st') \<Rightarrow>
             (json 500 (message_error ''Failed to fetch most logged habit.'' e), st')))"

section \<open>GET /api/users/:userId/createdAt\<close>

definition get_user_createdAt_try ::
  "lib \<Rightarrow> world \<Rightarrow> store \<Rightarrow> string \<Rightarrow> (js_error + response) \<times> store" where
  "get_user_createdAt_try L w st userId =
     (if \<not> ObjectId_isValid L (Some (VStr userId))
      then (Inr (json 400 (message ''Invalid user ID format.'')), st)
      else
        (case ObjectId_new L (Some (VStr userId)) of
           Inl e \<Rightarrow> (Inl e, st)
         | Inr userObjectId \<Rightarrow>
             (case db_read w 0 (FindOne ''users'')
                     (find (\<lambda>u. user_id u = Some userObjectId) (users st)) st of
                (Inl e, st') \<Rightarrow> (Inl e, st')
              | (Inr None, st') \<Rightarrow> (Inr (json 404 (message ''User not found.'')), st')
              | (Inr (Some user), st') \<Rightarrow>
                  (Inr (json 200 (VObj [(''createdAt'', VDate (Some (user_createdAt user)))])),
                   st'))))"

definition get_user_createdAt :: "lib \<Rightarrow> world \<Rightarrow> store \<Rightarrow> string \<Rightarrow> response \<times> store" where
  "get_user_createdAt L w st userId =
     (if \<not> db_connected w then (json 500 (message ''Database not connected.''), st)
      else if userId = [] then (json 400 (message ''Missing user ID in parameters.''), st)
      else
        (case get_user_createdAt_try L w st userId of
           (Inr res, st') \<Rightarrow> (res, st')
         | (Inl e, st') \<Rightarrow>
             (json 500 (message_error ''Failed to fetch user creation date.'' e), st')))"

section \<open>Notions for the statements\<close>


text \<open>The number of stored entries of user \<open>u\<close> that name habit \<open>h\<close>.\<close>

definition entry_count :: "objectid \<Rightarrow> objectid \<Rightarrow> store \<Rightarrow> nat" where
  "entry_count u h st =
     length (filter (\<lambda>e. ue_userId e = u \<and> ue_habitId e = h) (userHabitEntries st))"

section \<open>Fixtures for the examples\<close>

text \<open>
  An instance of the libraries. A string is an identifier when it has 24 lower-case
  hexadecimal digits, and the constructor throws on every other string. A number is
  accepted by \<^verbatim>\<open>ObjectId.isValid\<close> and by the constructor, which generates an
  identifier whose counter differs from call to call; so it does for \<^verbatim>\<open>null\<close> and
  \<^verbatim>\<open>undefined\<close>, which \<^verbatim>\<open>ObjectId.isValid\<close> rejects. The date text
  \<^verbatim>\<open>2024-05-01\<close> is midnight UTC of that day and \<^verbatim>\<open>+275760-09-13\<close> is the last
  instant a Date can hold. The stand-in for the password hash puts the salt before the
  reversed password, and it throws on a password that is not a string, as
  \<^verbatim>\<open>bcrypt.hash\<close> and \<^verbatim>\<open>bcrypt.compare\<close> do.
\<close>

definition hex24 :: "string \<Rightarrow> bool" where
  "hex24 s = (length s = 24 \<and> list_all (\<lambda>c. c \<in> set ''0123456789abcdef'') s)"

definition generated_id :: "nat \<Rightarrow> objectid" where
  "generated_id k =
     ObjectId (''65f0c1d2a1b2c3d4e50000''
               @ [''0123456789abcdef'' ! (k div 16 mod 16), ''0123456789abcdef'' ! (k mod 16)])"

definition test_lib :: lib where
  "test_lib =
     \<lparr>ObjectId_isValid =
        (\<lambda>x. case x of Some (VStr s) \<Rightarrow> hex24 s | Some (VNum n) \<Rightarrow> True | _ \<Rightarrow> False),
      ObjectId_new =
        (\<lambda>x. case x of
               None \<Rightarrow> Inr (generated_id 0)
             | Some VNull \<Rightarrow> Inr (generated_id 0)
             | Some (VNum n) \<Rightarrow> Inr (generated_id 0)
             | Some (VStr s) \<Rightarrow>
                 (if hex24 s then Inr (ObjectId s)
                  else Inl (BSONError ''input must be a 24 character hex string''))
             | _ \<Rightarrow> Inl (BSONError ''input must be a 24 character hex string'')),
      ObjectId_later =
        (\<lambda>k x. case x of
                 None \<Rightarrow> Inr (generated_id k)
               | Some VNull \<Rightarrow> Inr (generated_id k)
               | Some (VNum n) \<Rightarrow> Inr (generated_id k)
               | _ \<Rightarrow> Inl (BSONError ''input must be a 24 character hex string'')),
      Date_new =
        (\<lambda>x. case x of
               Some (VStr s) \<Rightarrow>
                 (if s = ''2024-05-01'' then Some 1714521600000
                  else if s = ''+275760-09-13'' then Some 8640000000000000
                  else None)
             | Some (VNum n) \<Rightarrow> Some n
             | _ \<Rightarrow> None),
      String_of = (\<lambda>x. case x of Some (VStr s) \<Rightarrow> s | _ \<Rightarrow> []),
      bcrypt_hash =
        (\<lambda>p s. case p of
                 Some (VStr pw) \<Rightarrow> Inr (''$2a$10$'' @ s @ rev pw)
               | _ \<Rightarrow> Inl (Error ''Illegal arguments'')),
      bcrypt_compare =
        (\<lambda>p h. case p of
                 Some (VStr pw) \<Rightarrow> Inr (take (length pw) (rev h) = pw)
               | _ \<Rightarrow> Inl (Error ''Illegal arguments'')),
      jwt_sign = (\<lambda>payload t. ''header.payload.signature''),
      mongo_matches = (\<lambda>q v. q = Some v)\<rparr>"

definition test_world :: world where
  "test_world =
     \<lparr>db_connected = True, now = 1714550000000, salt = ''N9qo8uLOickgx2ZMRZoMye'',
      fresh_id = ObjectId ''66320000000000000000000a'', fault = (\<lambda>k. None)\<rparr>"

definition empty_store :: store where
  "empty_store =
     \<lparr>habits = [], users = [], groups = [], userHabitEntries = [],
      groupHabitEntries = [], calls = []\<rparr>"

text \<open>Request bodies: a habit whose client sends a \<^verbatim>\<open>createdAt\<close> of its own, and a
  group without \<^verbatim>\<open>memberIds\<close>.\<close>

definition habit_body :: val where
  "habit_body = VObj
     [(''title'', VStr ''Run''),
      (''createdBy'', VStr ''66320000000000000000000b''),
      (''assignedTo'',
       VObj [(''type'', VStr ''user''), (''id'', VStr ''66320000000000000000000b'')]),
      (''schedule'', VStr ''daily''),
      (''createdAt'', VStr ''1999-01-01'')]"


text \<open>A signup body, and a store that holds the user it creates.\<close>

definition user_body :: val where
  "user_body = VObj [(''username'', VStr ''a''), (''email'', VStr ''a@x.com''),
                     (''password'', VStr ''p'')]"

definition user_a :: user_doc where
  "user_a =
     \<lparr>user_id = Some (ObjectId ''66320000000000000000000b''),
      user_username = Some (VStr ''a''), user_email = Some (VStr ''a@x.com''),
      user_password = ''$2a$10$N9qo8uLOickgx2ZMRZoMyep'',
      user_createdAt = 1714540000000\<rparr>"

definition users_store :: store where
  "users_store = empty_store\<lparr>users := [user_a]\<rparr>"

text \<open>Two login bodies: an email nobody has, and the email of \<open>user_a\<close> with a wrong
  password.\<close>

definition login_unknown :: val where
  "login_unknown = VObj [(''email'', VStr ''nobody@x.com''), (''password'', VStr ''p'')]"

definition login_wrong :: val where
  "login_wrong = VObj [(''email'', VStr ''a@x.com''), (''password'', VStr ''wrong'')]"

text \<open>A group body with a member identifier that is not well formed.\<close>

definition bad_members_body :: val where
  "bad_members_body = VObj
     [(''name'', VStr ''Runners''),
      (''ownerId'', VStr ''66320000000000000000000b''),
      (''memberIds'', VArr [VStr ''not-an-id''])]"

text \<open>A store with two entries of one user: one an hour into 2024-05-01 (UTC), one at
  the first millisecond of the next day.\<close>

definition entry_in_day :: user_entry where
  "entry_in_day =
     \<lparr>ue_id = Some (ObjectId ''66320000000000000000000c''),
      ue_habitId = ObjectId ''66320000000000000000000d'',
      ue_userId = ObjectId ''66320000000000000000000b'',
      ue_date = Some 1714525200000, ue_status = Some (VStr ''done''), ue_notes = None\<rparr>"

definition entry_next_day :: user_entry where
  "entry_next_day = entry_in_day\<lparr>ue_date := Some 1714608000000\<rparr>"

definition day_store :: store where
  "day_store = empty_store\<lparr>userHabitEntries := [entry_in_day, entry_next_day]\<rparr>"

text \<open>
  Two habits, \<open>habit_B\<close> created before \<open>habit_A\<close>, and a store in which one user
  has three entries for each of them.
\<close>

definition habit_A :: obj where
  "habit_A =
     [(''_id'', VOid (ObjectId ''6632000000000000000000a1'')),
      (''title'', VStr ''Read''),
      (''createdAt'', VDate (Some 1714000002000))]"

definition habit_B :: obj where
  "habit_B =
     [(''_id'', VOid (ObjectId ''6632000000000000000000b2'')),
      (''title'', VStr ''Run''),
      (''createdAt'', VDate (Some 1714000001000))]"

definition entry_A :: user_entry where
  "entry_A = entry_in_day\<lparr>ue_habitId := ObjectId ''6632000000000000000000a1''\<rparr>"

definition entry_B :: user_entry where
  "entry_B = entry_in_day\<lparr>ue_habitId := ObjectId ''6632000000000000000000b2''\<rparr>"

definition tie_store :: store where
  "tie_store =
     empty_store\<lparr>habits := [habit_A, habit_B],
                 userHabitEntries := [entry_A, entry_B, entry_A, entry_B, entry_A, entry_B]\<rparr>"

text \<open>
  A group whose only member is \<open>user_a\<close>, and the body with which that member
  confirms a habit of the group on 2024-05-01.
\<close>

definition group_g :: group_doc where
  "group_g =
     \<lparr>group_id = Some (ObjectId ''6632000000000000000000e5''),
      group_name = Some (VStr ''Runners''), group_description = None,
      group_ownerId = ObjectId ''66320000000000000000000b'',
      group_memberIds = [ObjectId ''66320000000000000000000b''],
      group_createdAt = 1714530000000\<rparr>"

definition completion_store :: store where
  "completion_store = empty_store\<lparr>users := [user_a], groups := [group_g]\<rparr>"

definition group_entry_body :: val where
  "group_entry_body = VObj
     [(''habitId'', VStr ''6632000000000000000000a1''),
      (''groupId'', VStr ''6632000000000000000000e5''),
      (''date'', VStr ''2024-05-01''),
      (''checkedBy'', VArr [VStr ''66320000000000000000000b''])]"


definition login_unknown_number :: val where
  "login_unknown_number = VObj [(''email'', VStr ''nobody@x.com''), (''password'', VNum 123)]"

definition login_known_number :: val where
  "login_known_number = VObj [(''email'', VStr ''a@x.com''), (''password'', VNum 123)]"


section \<open>Objects\<close>

lemma map_of_replace:
  "k \<in> fst ` set ps \<Longrightarrow>
   map_of (map (\<lambda>(k', v'). if k' = k then (k', v) else (k', v')) ps) k = Some v"
  by (induction ps) auto

lemma map_of_replace_other:
  "k' \<noteq> k \<Longrightarrow>
   map_of (map (\<lambda>(a, b). if a = k then (a, v) else (a, b)) ps) k' = map_of ps k'"
  by (induction ps) auto

lemma obj_set_lookup: "map_of (obj_set k v ps) k = Some v"
proof (cases "k \<in> fst ` set ps")
  case True
  then show ?thesis
    unfolding obj_set_def using map_of_replace [of k ps v] by simp
next
  case False
  then have "map_of ps k = None"
    by (simp add: map_of_eq_None_iff)
  with False show ?thesis
    unfolding obj_set_def by (simp add: map_add_def)
qed

lemma obj_set_other: "k' \<noteq> k \<Longrightarrow> map_of (obj_set k v ps) k' = map_of ps k'"
  unfolding obj_set_def
  by (auto simp: map_of_replace_other map_add_def split: option.splits)

lemma hex24_b: "hex24 ''66320000000000000000000b''"
  by (simp add: hex24_def)


section \<open>Habit creation\<close>

lemma habitToInsert_createdAt:
  "map_of (habitToInsert d c a t) ''createdAt'' = Some (VDate (Some t))"
  unfolding habitToInsert_def by (rule obj_set_lookup)

lemma insertOne_habits_createdAt:
  assumes "insertOne_habits w k doc st = (Inr (i, doc'), st')"
  shows "habits st' = habits st @ [doc'] \<and> map_of doc' ''createdAt'' = map_of doc ''createdAt''"
  using assms
  by (auto simp: insertOne_habits_def Let_def log_call_def obj_set_other
      split: option.splits if_splits)

text \<open>
  C5. Whenever \<^verbatim>\<open>POST /api/habits\<close> answers 201, exactly one document was added to
  the habits collection, and its \<^verbatim>\<open>createdAt\<close> is the date the server read from its
  clock, whatever the request body held under \<^verbatim>\<open>createdAt\<close> or any other key; the
  same document is returned as \<^verbatim>\<open>insertedHabit\<close>.
\<close>

theorem post_habits_createdAt:
  assumes "post_habits L w st newHabitData = (res, st')"
      and "res_status res = 201"
  shows "\<exists>doc. habits st' = habits st @ [doc]
             \<and> map_of doc ''createdAt'' = Some (VDate (Some (now w)))
             \<and> field (res_body res) ''insertedHabit'' = Some (VObj doc)"
proof -
  from assms obtain r where r: "post_habits_try L w st newHabitData = (Inr r, st')" "r = res"
    by (auto simp: post_habits_def json_def split: if_splits prod.splits sum.splits)
  with assms(2) obtain c a i doc where
    ins: "insertOne_habits w 0 (habitToInsert newHabitData c a (now w)) st = (Inr (i, doc), st')"
    and body: "res_body res = VObj [(''message'', VStr ''Habit created successfully!''),
                                    (''insertedId'', i),
                                    (''insertedHabit'', VObj doc)]"
    by (auto simp: post_habits_try_def json_def split: if_splits prod.splits sum.splits)
  from insertOne_habits_createdAt [OF ins] body show ?thesis
    by (simp add: habitToInsert_createdAt)
qed

theorem post_habits_createdAt_witness:
  "res_status (fst (post_habits test_lib test_world empty_store habit_body)) = 201
   \<and> (\<exists>doc. habits (snd (post_habits test_lib test_world empty_store habit_body))
                = habits empty_store @ [doc]
             \<and> map_of doc ''createdAt'' = Some (VDate (Some (now test_world)))
             \<and> field (res_body (fst (post_habits test_lib test_world empty_store habit_body)))
                  ''insertedHabit'' = Some (VObj doc))"
proof -
  have st: "res_status (fst (post_habits test_lib test_world empty_store habit_body)) = 201"
    by (simp add: post_habits_def post_habits_try_def habit_body_def test_lib_def
        test_world_def field2_def hex24_b insertOne_habits_def json_def Let_def)
  from post_habits_createdAt [OF prod.collapse [symmetric] st] st show ?thesis
    by simp
qed

section \<open>Group creation\<close>




text \<open>
  The failing input of C3. A well-formed owner and one member identifier that is not
  valid: \<^verbatim>\<open>new ObjectId\<close> throws while \<^verbatim>\<open>groupToInsert\<close> is built, before the loop
  that would answer 400 is reached, and the catch block answers 500. Nothing is
  inserted.
\<close>

theorem post_groups_invalid_member:
  "\<not> ObjectId_isValid test_lib (Some (VStr ''not-an-id''))
   \<and> post_groups test_lib test_world empty_store bad_members_body =
       (json 500 (message_error ''Failed to create group.''
                    (BSONError ''input must be a 24 character hex string'')),
        empty_store)"
  by (simp add: post_groups_def post_groups_try_def groupToInsert_def bad_members_body_def
      test_lib_def test_world_def hex24_b hex24_def)

theorem post_groups_invalid_member_status:
  "res_status (fst (post_groups test_lib test_world empty_store bad_members_body)) = 500
   \<and> groups (snd (post_groups test_lib test_world empty_store bad_members_body)) = []
   \<and> calls (snd (post_groups test_lib test_world empty_store bad_members_body)) = []"
  using post_groups_invalid_member by (simp add: json_def empty_store_def)

section \<open>Signup\<close>

lemma truthy_Some: "truthy x \<Longrightarrow> \<exists>v. x = Some v"
  by (cases x) auto

lemma insertOne_users_Inr:
  assumes "insertOne_users w k doc st = (Inr (i, doc'), st')"
  shows "i = fresh_id w \<and> doc' = doc\<lparr>user_id := Some (fresh_id w)\<rparr>
         \<and> users st' = users st @ [doc']"
  using assms
  by (auto simp: insertOne_users_def Let_def log_call_def split: option.splits)

text \<open>
  C7. Whenever \<^verbatim>\<open>POST /api/users\<close> answers 201, the response body is an object with
  exactly the keys \<^verbatim>\<open>message\<close>, \<^verbatim>\<open>insertedId\<close>, \<^verbatim>\<open>username\<close> and \<^verbatim>\<open>email\<close>:
  the identifier of the inserted document and the username and email of the request, and
  no \<^verbatim>\<open>password\<close>. Exactly one document was added to the users collection, and its
  \<^verbatim>\<open>password\<close> is the value \<^verbatim>\<open>bcrypt.hash\<close> returned for the request's password and
  the drawn salt.
\<close>

theorem post_users_created:
  assumes "post_users L w st newUserData = (res, st')"
      and "res_status res = 201"
  shows "(\<exists>ps. res_body res = VObj ps
              \<and> map fst ps = [''message'', ''insertedId'', ''username'', ''email''])
       \<and> field (res_body res) ''insertedId'' = Some (VOid (fresh_id w))
       \<and> field (res_body res) ''username'' = field newUserData ''username''
       \<and> field (res_body res) ''email'' = field newUserData ''email''
       \<and> field (res_body res) ''password'' = None
       \<and> (\<exists>h. bcrypt_hash L (field newUserData ''password'') (salt w) = Inr h
              \<and> users st' = users st @
                   [\<lparr>user_id = Some (fresh_id w),
                     user_username = field newUserData ''username'',
                     user_email = field newUserData ''email'',
                     user_password = h,
                     user_createdAt = now w\<rparr>])"
proof -
  from assms have t: "truthy (field newUserData ''username'')" "truthy (field newUserData ''email'')"
    and "\<exists>r. post_users_try L w st newUserData = (Inr r, st') \<and> r = res"
    by (auto simp: post_users_def json_def split: if_splits prod.splits sum.splits)
  then obtain r where r: "post_users_try L w st newUserData = (Inr r, st')" "r = res"
    by blast
  from t obtain un em where f: "field newUserData ''username'' = Some un"
    "field newUserData ''email'' = Some em"
    using truthy_Some [of "field newUserData ''username''"]
      truthy_Some [of "field newUserData ''email''"] by blast
  from r obtain h i doc where
    h: "bcrypt_hash L (field newUserData ''password'') (salt w) = Inr h"
    and ins: "insertOne_users w 0
               \<lparr>user_id = None, user_username = field newUserData ''username'',
                user_email = field newUserData ''email'', user_password = h,
                user_createdAt = now w\<rparr> st = (Inr (i, doc), st')"
    and body: "res_body res = VObj (json_fields
                          [(''message'', Some (VStr ''User created successfully!'')),
                           (''insertedId'', Some (VOid i)),
                           (''username'', field newUserData ''username''),
                           (''email'', field newUserData ''email'')])"
    by (auto simp: post_users_try_def json_def Let_def split: prod.splits sum.splits)
  from insertOne_users_Inr [OF ins] h body f show ?thesis
    by simp
qed

theorem post_users_created_witness:
  "res_status (fst (post_users test_lib test_world empty_store user_body)) = 201
   \<and> res_body (fst (post_users test_lib test_world empty_store user_body)) =
       VObj [(''message'', VStr ''User created successfully!''),
             (''insertedId'', VOid (ObjectId ''66320000000000000000000a'')),
             (''username'', VStr ''a''), (''email'', VStr ''a@x.com'')]
   \<and> field (res_body (fst (post_users test_lib test_world empty_store user_body)))
        ''password'' = None
   \<and> map user_password (users (snd (post_users test_lib test_world empty_store user_body)))
       = [''$2a$10$N9qo8uLOickgx2ZMRZoMyep'']"
proof -
  have st: "res_status (fst (post_users test_lib test_world empty_store user_body)) = 201"
    by (simp add: post_users_def post_users_try_def user_body_def test_lib_def
        test_world_def insertOne_users_def json_def Let_def)
  have b: "res_body (fst (post_users test_lib test_world empty_store user_body)) =
       VObj [(''message'', VStr ''User created successfully!''),
             (''insertedId'', VOid (ObjectId ''66320000000000000000000a'')),
             (''username'', VStr ''a''), (''email'', VStr ''a@x.com'')]"
    by (simp add: post_users_def post_users_try_def user_body_def test_lib_def
        test_world_def insertOne_users_def json_def Let_def)
  have h: "bcrypt_hash test_lib (field user_body ''password'') (salt test_world)
           = Inr ''$2a$10$N9qo8uLOickgx2ZMRZoMyep''"
    by (simp add: user_body_def test_lib_def test_world_def)
  from post_users_created [OF prod.collapse [symmetric] st] st b h show ?thesis
    by (auto simp: empty_store_def)
qed

section \<open>Login\<close>

text \<open>
  What the two failure branches share. Take two login requests, each with a truthy
  \<^verbatim>\<open>email\<close> and \<^verbatim>\<open>password\<close>, served while the database answers: one whose email no
  stored user matches, and one whose email finds a user and whose password
  \<^verbatim>\<open>bcrypt.compare\<close> compares and rejects. Both get the same response: status 401 with
  the body \<^verbatim>\<open>{ message: 'Invalid email or password.' }\<close>.
\<close>

lemma login_failures_identical:
  assumes "db_connected w1" and "db_connected w2"
      and "fault w1 0 = None" and "fault w2 0 = None"
      and "truthy (field b1 ''email'')" and "truthy (field b1 ''password'')"
      and "truthy (field b2 ''email'')" and "truthy (field b2 ''password'')"
      and "findOne_user_by_email L (field b1 ''email'') st1 = None"
      and "findOne_user_by_email L (field b2 ''email'') st2 = Some u"
      and "bcrypt_compare L (field b2 ''password'') (user_password u) = Inr False"
  shows "fst (post_login L w1 st1 b1) = json 401 (message ''Invalid email or password.'')
       \<and> fst (post_login L w2 st2 b2) = fst (post_login L w1 st1 b1)"
  using assms
  by (simp add: post_login_def post_login_try_def db_read_def)

lemma login_failures_identical_example:
  "findOne_user_by_email test_lib (field login_unknown ''email'') users_store = None
   \<and> findOne_user_by_email test_lib (field login_wrong ''email'') users_store = Some user_a
   \<and> fst (post_login test_lib test_world users_store login_unknown)
       = json 401 (message ''Invalid email or password.'')
   \<and> fst (post_login test_lib test_world users_store login_wrong)
       = fst (post_login test_lib test_world users_store login_unknown)"
proof -
  have 1: "db_connected test_world" "fault test_world 0 = None"
    by (simp_all add: test_world_def)
  have 2: "truthy (field login_unknown ''email'')" "truthy (field login_unknown ''password'')"
    "truthy (field login_wrong ''email'')" "truthy (field login_wrong ''password'')"
    by (simp_all add: login_unknown_def login_wrong_def)
  have 3: "findOne_user_by_email test_lib (field login_unknown ''email'') users_store = None"
    by (simp add: findOne_user_by_email_def login_unknown_def users_store_def user_a_def
        empty_store_def test_lib_def)
  have 4: "findOne_user_by_email test_lib (field login_wrong ''email'') users_store = Some user_a"
    by (simp add: findOne_user_by_email_def login_wrong_def users_store_def user_a_def
        empty_store_def test_lib_def)
  have 5: "bcrypt_compare test_lib (field login_wrong ''password'') (user_password user_a)
           = Inr False"
    by (simp add: login_wrong_def user_a_def test_lib_def)
  from login_failures_identical [OF 1(1) 1(1) 1(2) 1(2) 2 3 4 5] 3 4 show ?thesis
    by simp
qed

text \<open>
  What happens when \<^verbatim>\<open>bcrypt.compare\<close> throws: it is called only after a user was
  found, so the answer of the catch block is given for an email that exists and never
  for one that does not.
\<close>

lemma login_compare_throws:
  assumes "db_connected w" and "fault w 0 = None"
      and "truthy (field b ''email'')" and "truthy (field b ''password'')"
      and "findOne_user_by_email L (field b ''email'') st = Some u"
      and "bcrypt_compare L (field b ''password'') (user_password u) = Inl e"
  shows "fst (post_login L w st b) = json 500 (message_error ''An error occurred during login.'' e)"
  using assms
  by (simp add: post_login_def post_login_try_def db_read_def)

lemma login_unknown_email:
  assumes "db_connected w" and "fault w 0 = None"
      and "truthy (field b ''email'')" and "truthy (field b ''password'')"
      and "findOne_user_by_email L (field b ''email'') st = None"
  shows "fst (post_login L w st b) = json 401 (message ''Invalid email or password.'')"
  using assms
  by (simp add: post_login_def post_login_try_def db_read_def)

text \<open>
  The failing input of C4. Two login bodies of the same shape, with the number 123 as
  password, which passes the handler's only test, \<^verbatim>\<open>!email || !password\<close>. For the
  email nobody has the answer is the 401 of the claim. For the email of a stored user,
  whose password 123 is not, \<^verbatim>\<open>bcrypt.compare\<close> throws on the number and the catch
  block answers 500: the two responses differ, and the caller learns that the account
  exists.
\<close>

theorem login_number_password_distinguishes:
  "truthy (field login_unknown_number ''password'')
   \<and> truthy (field login_known_number ''password'')
   \<and> fst (post_login test_lib test_world users_store login_unknown_number)
       = json 401 (message ''Invalid email or password.'')
   \<and> fst (post_login test_lib test_world users_store login_known_number)
       = json 500 (message_error ''An error occurred during login.''
                     (Error ''Illegal arguments''))"
proof -
  have 1: "db_connected test_world" "fault test_world 0 = None"
    by (simp_all add: test_world_def)
  have 2: "truthy (field login_unknown_number ''email'')"
    "truthy (field login_unknown_number ''password'')"
    "truthy (field login_known_number ''email'')"
    "truthy (field login_known_number ''password'')"
    by (simp_all add: login_unknown_number_def login_known_number_def)
  have 3: "findOne_user_by_email test_lib (field login_unknown_number ''email'') users_store
           = None"
    by (simp add: findOne_user_by_email_def login_unknown_number_def users_store_def user_a_def
        empty_store_def test_lib_def)
  have 4: "findOne_user_by_email test_lib (field login_known_number ''email'') users_store
           = Some user_a"
    by (simp add: findOne_user_by_email_def login_known_number_def users_store_def user_a_def
        empty_store_def test_lib_def)
  have 5: "bcrypt_compare test_lib (field login_known_number ''password'') (user_password user_a)
           = Inl (Error ''Illegal arguments'')"
    by (simp add: login_known_number_def test_lib_def)
  from login_unknown_email [OF 1 2(1,2) 3] login_compare_throws [OF 1 2(3,4) 4 5] 2
  show ?thesis by simp
qed

theorem login_number_password_statuses:
  "res_status (fst (post_login test_lib test_world users_store login_unknown_number)) = 401
   \<and> res_status (fst (post_login test_lib test_world users_store login_known_number)) = 500"
  using login_number_password_distinguishes by (simp add: json_def)

section \<open>Identifiers in the path\<close>

text \<open>
  C8. Each of the eight endpoints that take an identifier in the path (the habits and the
  groups of a user, the habits of a group, the entries of a user or of a group on a day,
  the completion summary, the most logged habit and the creation date of a user) answers
  a served request whose identifier \<^verbatim>\<open>ObjectId.isValid\<close> rejects with status 400, and
  leaves the store as it was: no operation reached the database.
\<close>

theorem invalid_path_id_400:
  assumes "db_connected w" and "\<not> ObjectId_isValid L (Some (VStr i))"
  shows "res_status (fst (get_user_habits L w st i)) = 400
       \<and> snd (get_user_habits L w st i) = st
       \<and> res_status (fst (get_user_groups L w st i)) = 400
       \<and> snd (get_user_groups L w st i) = st
       \<and> res_status (fst (get_group_habits L w st i)) = 400
       \<and> snd (get_group_habits L w st i) = st
       \<and> res_status (fst (get_user_habitEntries L w st i d)) = 400
       \<and> snd (get_user_habitEntries L w st i d) = st
       \<and> res_status (fst (get_group_habitEntries L w st i d)) = 400
       \<and> snd (get_group_habitEntries L w st i d) = st
       \<and> res_status (fst (get_members_completion L w st i d)) = 400
       \<and> snd (get_members_completion L w st i d) = st
       \<and> res_status (fst (get_mostLoggedHabit L w st i)) = 400
       \<and> snd (get_mostLoggedHabit L w st i) = st
       \<and> res_status (fst (get_user_createdAt L w st i)) = 400
       \<and> snd (get_user_createdAt L w st i) = st"
proof -
  have 1: "res_status (fst (get_user_habits L w st i)) = 400 \<and> snd (get_user_habits L w st i) = st"
    using assms by (simp add: get_user_habits_def get_user_habits_try_def json_def)
  have 2: "res_status (fst (get_user_groups L w st i)) = 400 \<and> snd (get_user_groups L w st i) = st"
    using assms by (simp add: get_user_groups_def get_user_groups_try_def json_def)
  have 3: "res_status (fst (get_group_habits L w st i)) = 400 \<and> snd (get_group_habits L w st i) = st"
    using assms by (simp add: get_group_habits_def get_group_habits_try_def json_def)
  have 4: "res_status (fst (get_user_habitEntries L w st i d)) = 400
       \<and> snd (get_user_habitEntries L w st i d) = st"
    using assms by (simp add: get_user_habitEntries_def get_user_habitEntries_try_def json_def)
  have 5: "res_status (fst (get_group_habitEntries L w st i d)) = 400
       \<and> snd (get_group_habitEntries L w st i d) = st"
    using assms by (simp add: get_group_habitEntries_def get_group_habitEntries_try_def json_def)
  have 6: "res_status (fst (get_members_completion L w st i d)) = 400
       \<and> snd (get_members_completion L w st i d) = st"
    using assms by (simp add: get_members_completion_def get_members_completion_try_def json_def)
  have 7: "res_status (fst (get_mostLoggedHabit L w st i)) = 400
       \<and> snd (get_mostLoggedHabit L w st i) = st"
    using assms by (simp add: get_mostLoggedHabit_def get_mostLoggedHabit_try_def json_def)
  have 8: "res_status (fst (get_user_createdAt L w st i)) = 400
       \<and> snd (get_user_createdAt L w st i) = st"
    using assms by (simp add: get_user_createdAt_def get_user_createdAt_try_def json_def)
  from 1 2 3 4 5 6 7 8 show ?thesis by blast
qed

theorem invalid_path_id_400_witness:
  "\<not> ObjectId_isValid test_lib (Some (VStr ''not-an-id''))
   \<and> get_user_habits test_lib test_world users_store ''not-an-id''
       = (json 400 (message ''Invalid user ID format.''), users_store)
   \<and> res_status (fst (get_mostLoggedHabit test_lib test_world users_store ''not-an-id'')) = 400
   \<and> snd (get_mostLoggedHabit test_lib test_world users_store ''not-an-id'') = users_store
   \<and> res_status (fst (get_members_completion test_lib test_world users_store
                        ''not-an-id'' ''2024-05-01'')) = 400
   \<and> snd (get_members_completion test_lib test_world users_store
            ''not-an-id'' ''2024-05-01'') = users_store"
proof -
  have c: "db_connected test_world"
    by (simp add: test_world_def)
  have v: "\<not> ObjectId_isValid test_lib (Some (VStr ''not-an-id''))"
    by (simp add: test_lib_def hex24_def)
  have h: "get_user_habits test_lib test_world users_store ''not-an-id''
       = (json 400 (message ''Invalid user ID format.''), users_store)"
    using c v by (simp add: get_user_habits_def get_user_habits_try_def)
  from invalid_path_id_400 [OF c v, of users_store "''2024-05-01''"] v h show ?thesis
    by simp
qed

section \<open>The entries of a day\<close>






section \<open>The most logged habit\<close>

lemma sort_key_hd_min:
  fixes f :: "'a \<Rightarrow> 'k::linorder"
  assumes "xs \<noteq> []"
  shows "hd (sort_key f xs) \<in> set xs \<and> (\<forall>y\<in>set xs. f (hd (sort_key f xs)) \<le> f y)"
proof -
  have s: "set (sort_key f xs) = set xs" by simp
  with assms obtain a as where ys: "sort_key f xs = a # as"
    by (cases "sort_key f xs") auto
  have "sorted (map f (sort_key f xs))" by (rule sorted_sort_key)
  with ys have "\<forall>y\<in>set as. f a \<le> f y" by simp
  with ys s show ?thesis by (metis list.sel(1) list.set_intros(1) order_refl set_ConsD)
qed

lemma set_group_by_habit:
  "set (group_by_habit es) =
     (\<lambda>h. (h, length (filter (\<lambda>e. ue_habitId e = h) es))) ` ue_habitId ` set es"
  by (simp add: group_by_habit_def)

lemma set_lookup_unwind:
  "set (lookup_unwind hs gs) =
     {(c, d). \<exists>h. (h, c) \<in> set gs \<and> d \<in> set hs \<and> map_of d ''_id'' = Some (VOid h)}"
  by (auto simp: lookup_unwind_def)

lemma count_match_user:
  "length (filter (\<lambda>e. ue_habitId e = h) (match_user u (userHabitEntries st))) = entry_count u h st"
  by (simp add: match_user_def entry_count_def conj_commute)

lemma set_candidates:
  "set (lookup_unwind (habits st)
          (sort_count_desc (group_by_habit (match_user u (userHabitEntries st))))) =
     {(c, d). \<exists>h. 0 < entry_count u h st \<and> c = entry_count u h st
                \<and> d \<in> set (habits st) \<and> map_of d ''_id'' = Some (VOid h)}"
proof -
  have "\<And>h. h \<in> ue_habitId ` set (match_user u (userHabitEntries st)) \<longleftrightarrow> 0 < entry_count u h st"
    by (auto simp: match_user_def entry_count_def filter_empty_conv image_iff)
  then show ?thesis
    by (auto simp: set_lookup_unwind sort_count_desc_def set_group_by_habit count_match_user)
qed

lemma key_le:
  "((- int c, b) \<le> (- int c', b')) \<longleftrightarrow> (c' < c \<or> (c' = c \<and> (b::nat \<times> int) \<le> b'))"
  by (auto simp: less_eq_prod_def)

lemma pipeline_top:
  assumes "(c0, d0) \<in> set (lookup_unwind (habits st)
             (sort_count_desc (group_by_habit (match_user u (userHabitEntries st)))))"
  shows "\<exists>h d. d \<in> set (habits st) \<and> map_of d ''_id'' = Some (VOid h)
            \<and> 0 < entry_count u h st
            \<and> pipeline u st = [project_habit (entry_count u h st, d)]
            \<and> (\<forall>h' d'. d' \<in> set (habits st) \<and> map_of d' ''_id'' = Some (VOid h')
                  \<longrightarrow> entry_count u h' st \<le> entry_count u h st
                      \<and> (entry_count u h' st = entry_count u h st
                           \<longrightarrow> bson_order (map_of d ''createdAt'')
                                 \<le> bson_order (map_of d' ''createdAt'')))"
proof -
  define xs where "xs = lookup_unwind (habits st)
             (sort_count_desc (group_by_habit (match_user u (userHabitEntries st))))"
  define k where "k = (\<lambda>(c::nat, habitDetails::obj).
                        (- int c, bson_order (map_of habitDetails ''createdAt'')))"
  define top where "top = hd (sort_key k xs)"
  from assms have ne: "xs \<noteq> []" by (auto simp: xs_def)
  from sort_key_hd_min [OF ne, of k]
  have mem: "top \<in> set xs" and least: "\<forall>y\<in>set xs. k top \<le> k y"
    by (simp_all add: top_def)
  obtain c d where top: "top = (c, d)" by (cases top)
  from mem obtain h where h: "0 < entry_count u h st" "c = entry_count u h st"
    "d \<in> set (habits st)" "map_of d ''_id'' = Some (VOid h)"
    unfolding xs_def set_candidates top by auto
  have "sort_key k xs \<noteq> []"
    using ne by (metis set_empty set_sort)
  then have "take 1 (sort_key k xs) = [top]"
    by (cases "sort_key k xs") (simp_all add: top_def)
  then have p: "pipeline u st = [project_habit (entry_count u h st, d)]"
    by (simp add: pipeline_def sort_count_createdAt_def xs_def [symmetric] k_def [symmetric]
        top h(2))
  have "entry_count u h' st \<le> entry_count u h st
          \<and> (entry_count u h' st = entry_count u h st
               \<longrightarrow> bson_order (map_of d ''createdAt'') \<le> bson_order (map_of d' ''createdAt''))"
    if d': "d' \<in> set (habits st)" "map_of d' ''_id'' = Some (VOid h')" for h' d'
  proof (cases "0 < entry_count u h' st")
    case True
    with d' have "(entry_count u h' st, d') \<in> set xs"
      unfolding xs_def set_candidates by auto
    with least have "k top \<le> k (entry_count u h' st, d')" by blast
    then show ?thesis
      by (auto simp: top k_def key_le h(2))
  next
    case False
    with h(1) show ?thesis by simp
  qed
  with h p show ?thesis by blast
qed

lemma pipeline_empty:
  assumes "lookup_unwind (habits st)
             (sort_count_desc (group_by_habit (match_user u (userHabitEntries st)))) = []"
  shows "pipeline u st = []"
  using assms by (simp add: pipeline_def sort_count_createdAt_def)

lemma get_mostLoggedHabit_pipeline:
  assumes "db_connected w" and "fault w 0 = None" and "i \<noteq> []"
      and "ObjectId_isValid L (Some (VStr i))"
      and "ObjectId_new L (Some (VStr i)) = Inr u"
  shows "fst (get_mostLoggedHabit L w st i) =
           (case pipeline u st of
              [] \<Rightarrow> json 404 (message ''No logged habits found for this user.'')
            | r # rs \<Rightarrow> json 200 r)"
  using assms
  by (simp add: get_mostLoggedHabit_def get_mostLoggedHabit_try_def db_read_def
      split: list.splits)

lemma test_request:
  "db_connected test_world" "fault test_world 0 = None" "''66320000000000000000000b'' \<noteq> []"
  "ObjectId_isValid test_lib (Some (VStr ''66320000000000000000000b''))"
  "ObjectId_new test_lib (Some (VStr ''66320000000000000000000b''))
     = Inr (ObjectId ''66320000000000000000000b'')"
  by (simp_all add: test_world_def test_lib_def hex24_b)

lemma tie_counts:
  "entry_count (ObjectId ''66320000000000000000000b'') (ObjectId ''6632000000000000000000a1'')
     tie_store = 3"
  "entry_count (ObjectId ''66320000000000000000000b'') (ObjectId ''6632000000000000000000b2'')
     tie_store = 3"
  by (simp_all add: entry_count_def tie_store_def entry_A_def entry_B_def entry_in_day_def
      empty_store_def)

text \<open>
  C2, as amended. Let the request be served with a well-formed identifier of user \<open>u\<close>
  while the database answers. If some entry of \<open>u\<close> names a habit that has a document
  in the habits collection, the endpoint answers 200 with one result, made from a habit
  document \<open>d\<close> with identifier \<open>h\<close> that \<open>u\<close> has logged and from the number of
  entries of \<open>u\<close> for \<open>h\<close>: no habit that has a document has more entries of \<open>u\<close>, and
  among those with as many none comes before \<open>d\<close> in the order of \<^verbatim>\<open>createdAt\<close>
  (for two dates, none was created earlier). If \<open>u\<close> has no entries, the endpoint
  answers 404.
\<close>

theorem most_logged_habit:
  assumes "db_connected w" and "fault w 0 = None" and "i \<noteq> []"
      and "ObjectId_isValid L (Some (VStr i))"
      and "ObjectId_new L (Some (VStr i)) = Inr u"
  shows "((\<exists>e\<in>set (userHabitEntries st). ue_userId e = u
             \<and> (\<exists>d\<in>set (habits st). map_of d ''_id'' = Some (VOid (ue_habitId e))))
          \<longrightarrow> (\<exists>h d. d \<in> set (habits st) \<and> map_of d ''_id'' = Some (VOid h)
                \<and> 0 < entry_count u h st
                \<and> fst (get_mostLoggedHabit L w st i)
                    = json 200 (project_habit (entry_count u h st, d))
                \<and> (\<forall>h' d'. d' \<in> set (habits st) \<and> map_of d' ''_id'' = Some (VOid h')
                      \<longrightarrow> entry_count u h' st \<le> entry_count u h st
                          \<and> (entry_count u h' st = entry_count u h st
                               \<longrightarrow> bson_order (map_of d ''createdAt'')
                                     \<le> bson_order (map_of d' ''createdAt'')))))
       \<and> ((\<forall>e\<in>set (userHabitEntries st). ue_userId e \<noteq> u)
          \<longrightarrow> fst (get_mostLoggedHabit L w st i)
                = json 404 (message ''No logged habits found for this user.''))"
proof (intro conjI impI)
  assume "\<exists>e\<in>set (userHabitEntries st). ue_userId e = u
             \<and> (\<exists>d\<in>set (habits st). map_of d ''_id'' = Some (VOid (ue_habitId e)))"
  then obtain e d where e: "e \<in> set (userHabitEntries st)" "ue_userId e = u"
    "d \<in> set (habits st)" "map_of d ''_id'' = Some (VOid (ue_habitId e))"
    by blast
  then have "0 < entry_count u (ue_habitId e) st"
    by (auto simp: entry_count_def filter_empty_conv)
  with e have "(entry_count u (ue_habitId e) st, d) \<in> set (lookup_unwind (habits st)
             (sort_count_desc (group_by_habit (match_user u (userHabitEntries st)))))"
    unfolding set_candidates by auto
  from pipeline_top [OF this] get_mostLoggedHabit_pipeline [OF assms, of st]
  show "\<exists>h d. d \<in> set (habits st) \<and> map_of d ''_id'' = Some (VOid h)
                \<and> 0 < entry_count u h st
                \<and> fst (get_mostLoggedHabit L w st i)
                    = json 200 (project_habit (entry_count u h st, d))
                \<and> (\<forall>h' d'. d' \<in> set (habits st) \<and> map_of d' ''_id'' = Some (VOid h')
                      \<longrightarrow> entry_count u h' st \<le> entry_count u h st
                          \<and> (entry_count u h' st = entry_count u h st
                               \<longrightarrow> bson_order (map_of d ''createdAt'')
                                     \<le> bson_order (map_of d' ''createdAt'')))"
    by (elim exE conjE) (intro exI conjI, simp_all)
next
  assume "\<forall>e\<in>set (userHabitEntries st). ue_userId e \<noteq> u"
  then have "\<And>h. entry_count u h st = 0"
    by (auto simp: entry_count_def filter_empty_conv)
  then have "set (lookup_unwind (habits st)
             (sort_count_desc (group_by_habit (match_user u (userHabitEntries st))))) = {}"
    unfolding set_candidates by simp
  then have "pipeline u st = []"
    using pipeline_empty by simp
  with get_mostLoggedHabit_pipeline [OF assms, of st]
  show "fst (get_mostLoggedHabit L w st i)
                = json 404 (message ''No logged habits found for this user.'')"
    by simp
qed

theorem most_logged_habit_witness:
  "fst (get_mostLoggedHabit test_lib test_world tie_store ''66320000000000000000000b'')
     = json 200 (VObj [(''_id'', VOid (ObjectId ''6632000000000000000000b2'')),
                       (''title'', VStr ''Run''),
                       (''completionCount'', VNum 3)])
   \<and> fst (get_mostLoggedHabit test_lib test_world empty_store ''66320000000000000000000b'')
       = json 404 (message ''No logged habits found for this user.'')"
proof -
  let ?u = "ObjectId ''66320000000000000000000b''"
  note main = most_logged_habit [OF test_request]
  have ex: "\<exists>e\<in>set (userHabitEntries tie_store). ue_userId e = ?u
             \<and> (\<exists>d\<in>set (habits tie_store). map_of d ''_id'' = Some (VOid (ue_habitId e)))"
    by (simp add: tie_store_def entry_A_def entry_B_def entry_in_day_def empty_store_def
        habit_A_def habit_B_def)
  with main [of tie_store] obtain h d where
    d: "d \<in> set (habits tie_store)" "map_of d ''_id'' = Some (VOid h)"
    and r: "fst (get_mostLoggedHabit test_lib test_world tie_store ''66320000000000000000000b'')
            = json 200 (project_habit (entry_count ?u h tie_store, d))"
    and best: "\<forall>h' d'. d' \<in> set (habits tie_store) \<and> map_of d' ''_id'' = Some (VOid h')
                  \<longrightarrow> entry_count ?u h' tie_store \<le> entry_count ?u h tie_store
                      \<and> (entry_count ?u h' tie_store = entry_count ?u h tie_store
                           \<longrightarrow> bson_order (map_of d ''createdAt'')
                                 \<le> bson_order (map_of d' ''createdAt''))"
    by blast
  from d(1) have "d = habit_A \<or> d = habit_B"
    by (simp add: tie_store_def empty_store_def)
  then have "d = habit_B \<and> h = ObjectId ''6632000000000000000000b2''"
  proof
    assume a: "d = habit_A"
    with d(2) have h: "h = ObjectId ''6632000000000000000000a1''"
      by (simp add: habit_A_def)
    have "habit_B \<in> set (habits tie_store)
          \<and> map_of habit_B ''_id'' = Some (VOid (ObjectId ''6632000000000000000000b2''))"
      by (simp add: tie_store_def empty_store_def habit_B_def)
    with best have "entry_count ?u (ObjectId ''6632000000000000000000b2'') tie_store
                      = entry_count ?u h tie_store
                    \<longrightarrow> bson_order (map_of d ''createdAt'')
                          \<le> bson_order (map_of habit_B ''createdAt'')"
      by blast
    with a h tie_counts have False
      by (simp add: habit_A_def habit_B_def less_eq_prod_def)
    then show ?thesis ..
  next
    assume a: "d = habit_B"
    with d(2) show ?thesis by (simp add: habit_B_def)
  qed
  with r tie_counts have 1:
    "fst (get_mostLoggedHabit test_lib test_world tie_store ''66320000000000000000000b'')
     = json 200 (VObj [(''_id'', VOid (ObjectId ''6632000000000000000000b2'')),
                       (''title'', VStr ''Run''),
                       (''completionCount'', VNum 3)])"
    by (simp add: project_habit_def habit_B_def)
  have "\<forall>e\<in>set (userHabitEntries empty_store). ue_userId e \<noteq> ?u"
    by (simp add: empty_store_def)
  with main [of empty_store] have 2:
    "fst (get_mostLoggedHabit test_lib test_world empty_store ''66320000000000000000000b'')
       = json 404 (message ''No logged habits found for this user.'')"
    by blast
  from 1 2 show ?thesis by blast
qed

text \<open>
  The claim C2 as stated fails: the user below has two entries, but their habit has no
  document in the habits collection, and the endpoint answers 404 instead of a result.
\<close>

theorem most_logged_habit_dangling_404:
  "length (filter (\<lambda>e. ue_userId e = ObjectId ''66320000000000000000000b'')
             (userHabitEntries day_store)) = 2
   \<and> fst (get_mostLoggedHabit test_lib test_world day_store ''66320000000000000000000b'')
       = json 404 (message ''No logged habits found for this user.'')"
  by (simp add: get_mostLoggedHabit_def get_mostLoggedHabit_try_def db_read_def test_request
      pipeline_def lookup_unwind_def sort_count_createdAt_def sort_count_desc_def
      group_by_habit_def match_user_def day_store_def entry_in_day_def entry_next_day_def empty_store_def)






section \<open>The completion summary\<close>

lemma hex24_ids:
  "hex24 ''6632000000000000000000a1''" "hex24 ''6632000000000000000000e5''"
  by (simp_all add: hex24_def)

lemma test_ids:
  "ObjectId_isValid test_lib (Some (VStr ''6632000000000000000000e5''))"
  "ObjectId_new test_lib (Some (VStr ''6632000000000000000000e5''))
     = Inr (ObjectId ''6632000000000000000000e5'')"
  "ObjectId_isValid test_lib (Some (VStr ''6632000000000000000000a1''))"
  "ObjectId_new test_lib (Some (VStr ''6632000000000000000000a1''))
     = Inr (ObjectId ''6632000000000000000000a1'')"
  "ObjectId_isValid test_lib (Some (VStr ''66320000000000000000000b''))"
  "ObjectId_new test_lib (Some (VStr ''66320000000000000000000b''))
     = Inr (ObjectId ''66320000000000000000000b'')"
  by (simp_all add: test_lib_def hex24_ids hex24_b)

lemma test_date:
  "js_Date test_lib (Some (VStr ''2024-05-01'')) = Some 1714521600000"
  by (simp add: js_Date_def test_lib_def time_clip_def)

lemma day_2024_05_01:
  "startOfDay test_lib ''2024-05-01'' = Some 1714521600000"
  "endOfDay test_lib ''2024-05-01'' = Some 1714607999999"
  by (simp_all add: startOfDay_def endOfDay_def js_Date_def test_lib_def time_clip_def
      msPerDay_def)

lemma post_group_entry:
  "post_groupHabitEntries test_lib test_world completion_store group_entry_body =
     (json 201 (VObj
        [(''message'', VStr ''Group habit entry created successfully!''),
         (''insertedId'', VOid (ObjectId ''66320000000000000000000a'')),
         (''insertedEntry'', group_entry_json
            \<lparr>ge_id = Some (ObjectId ''66320000000000000000000a''),
             ge_habitId = ObjectId ''6632000000000000000000a1'',
             ge_groupId = ObjectId ''6632000000000000000000e5'',
             ge_date = Some 1714521600000,
             ge_checkedBy = [ObjectId ''66320000000000000000000b''],
             ge_notes = VObj [], ge_userId = None\<rparr>)]),
      completion_store
        \<lparr>groupHabitEntries :=
           [\<lparr>ge_id = Some (ObjectId ''66320000000000000000000a''),
             ge_habitId = ObjectId ''6632000000000000000000a1'',
             ge_groupId = ObjectId ''6632000000000000000000e5'',
             ge_date = Some 1714521600000,
             ge_checkedBy = [ObjectId ''66320000000000000000000b''],
             ge_notes = VObj [], ge_userId = None\<rparr>],
         calls := [InsertOne ''groupHabitEntries'']\<rparr>)"
  by (simp add: post_groupHabitEntries_def post_groupHabitEntries_try_def validate_ids_def
      first_invalid_def group_entry_body_def test_ids test_date test_world_def
      insertOne_groupHabitEntries_def log_call_def notes_or_empty_def
      completion_store_def empty_store_def Let_def)

text \<open>
  The failing input of C1. The group has one member and no entry: the summary gives the
  member with \<^verbatim>\<open>completedGroupHabits\<close> 0. The member then confirms a habit through
  \<^verbatim>\<open>POST /api/groupHabitEntries\<close>, which stores the member under \<^verbatim>\<open>checkedBy\<close> and
  no \<^verbatim>\<open>userId\<close>. The summary of that day now reads \<^verbatim>\<open>entry.userId.toString()\<close> on
  the stored entry, which throws a TypeError, and the catch block answers 400 with the
  message for a malformed date; no member and no count is returned.
\<close>

theorem completion_after_confirmation:
  "fst (get_members_completion test_lib test_world completion_store
          ''6632000000000000000000e5'' ''2024-05-01'')
     = json 200 (VArr [VObj (user_json user_a @ [(''completedGroupHabits'', VNum 0),
                                                 (''totalGroupHabits'', VNum 0)])])
   \<and> res_status (fst (post_groupHabitEntries test_lib test_world completion_store
                        group_entry_body)) = 201
   \<and> map ge_checkedBy (groupHabitEntries (snd (post_groupHabitEntries test_lib test_world
                           completion_store group_entry_body)))
       = [[ObjectId ''66320000000000000000000b'']]
   \<and> fst (get_members_completion test_lib test_world
            (snd (post_groupHabitEntries test_lib test_world completion_store group_entry_body))
            ''6632000000000000000000e5'' ''2024-05-01'')
       = json 400 (message ''Invalid date format provided. Use YYYY-MM-DD.'')"
proof -
  have 1: "fst (get_members_completion test_lib test_world completion_store
          ''6632000000000000000000e5'' ''2024-05-01'')
     = json 200 (VArr [VObj (user_json user_a @ [(''completedGroupHabits'', VNum 0),
                                                 (''totalGroupHabits'', VNum 0)])])"
    by (simp add: get_members_completion_def get_members_completion_try_def db_read_def
        test_ids test_world_def log_call_def completion_store_def empty_store_def
        group_g_def user_a_def group_entries_of_day_def)
  have 2: "fst (get_members_completion test_lib test_world
            (snd (post_groupHabitEntries test_lib test_world completion_store group_entry_body))
            ''6632000000000000000000e5'' ''2024-05-01'')
       = json 400 (message ''Invalid date format provided. Use YYYY-MM-DD.'')"
    unfolding post_group_entry
    by (simp add: get_members_completion_def get_members_completion_try_def db_read_def
        day_2024_05_01 date_between_def
        test_ids test_world_def log_call_def completion_store_def empty_store_def
        group_g_def user_a_def group_entries_of_day_def)
  have 3: "res_status (fst (post_groupHabitEntries test_lib test_world completion_store
                        group_entry_body)) = 201
   \<and> map ge_checkedBy (groupHabitEntries (snd (post_groupHabitEntries test_lib test_world
                           completion_store group_entry_body)))
       = [[ObjectId ''66320000000000000000000b'']]"
    by (simp add: post_group_entry json_def)
  from 1 2 3 show ?thesis
    by blast
qed

theorem completion_after_confirmation_status:
  "res_status (fst (get_members_completion test_lib test_world
            (snd (post_groupHabitEntries test_lib test_world completion_store group_entry_body))
            ''6632000000000000000000e5'' ''2024-05-01'')) = 400"
  using completion_after_confirmation by (simp add: json_def)

section \<open>Group creation with a malformed member, in general\<close>

text \<open>
  Whatever the libraries do: a body whose \<^verbatim>\<open>memberIds\<close> array holds an element that
  \<^verbatim>\<open>ObjectId.isValid\<close> rejects never reaches the database. When \<^verbatim>\<open>new ObjectId\<close>
  throws on an element, the answer is that of the catch block, not the 400 of the
  validation loop.
\<close>

lemma first_invalid_Some:
  "\<exists>x\<in>set xs. \<not> ObjectId_isValid L (Some x) \<Longrightarrow> \<exists>bad. first_invalid L xs = Some bad"
  unfolding first_invalid_def by (induction xs) auto

lemma map_ObjectId_throws:
  "\<exists>x\<in>set xs. \<forall>j. \<exists>e. ObjectId_again L j (Some x) = Inl e
   \<Longrightarrow> \<exists>e. map_ObjectId L k xs = Inl e"
proof (induction xs arbitrary: k)
  case Nil
  then show ?case by simp
next
  case (Cons a xs)
  show ?case
  proof (cases "ObjectId_again L k (Some a)")
    case (Inl e)
    then show ?thesis by simp
  next
    case (Inr i)
    have "\<not> (\<forall>j. \<exists>e. ObjectId_again L j (Some a) = Inl e)"
      using Inr by (metis Inl_Inr_False)
    with Cons.prems have "\<exists>x\<in>set xs. \<forall>j. \<exists>e. ObjectId_again L j (Some x) = Inl e"
      by auto
    from Cons.IH [OF this, of "Suc k"] Inr show ?thesis by auto
  qed
qed

lemma truthy_field: "truthy (field v k) \<Longrightarrow> truthy (Some v)"
  by (cases v) auto

lemma post_groups_invalid_member_no_insert:
  assumes "field newGroupData ''memberIds'' = Some (VArr xs)"
      and "\<exists>x\<in>set xs. \<not> ObjectId_isValid L (Some x)"
  shows "snd (post_groups L w st newGroupData) = st
       \<and> res_status (fst (post_groups L w st newGroupData)) \<in> {400, 409, 500}"
proof -
  from first_invalid_Some [OF assms(2)] obtain bad where "first_invalid L xs = Some bad" ..
  with assms(1) have v: "validate_ids L ''Invalid memberId format: '' (field newGroupData ''memberIds'')
      = Inr (Some (json 400 (message (''Invalid memberId format: '' @ String_of L (Some bad)))))"
    by (simp add: validate_ids_def)
  show ?thesis
    by (simp add: post_groups_def post_groups_try_def v json_def split: sum.splits)
qed

lemma post_groups_invalid_member_throws:
  assumes "db_connected w"
      and "truthy (field newGroupData ''name'')" and "truthy (field newGroupData ''ownerId'')"
      and "ObjectId_isValid L (field newGroupData ''ownerId'')"
      and "ObjectId_new L (field newGroupData ''ownerId'') = Inr owner"
      and "field newGroupData ''memberIds'' = Some (VArr xs)"
      and "map_ObjectId L 1 xs = Inl e"
  shows "post_groups L w st newGroupData =
           (if error_code e = Some 11000 then json 409 (message ''Group name already exists.'')
            else json 500 (message_error ''Failed to create group.'' e), st)"
  using assms truthy_field [OF assms(2)]
  by (simp add: post_groups_def post_groups_try_def groupToInsert_def)


section \<open>The completion summary, in general\<close>

text \<open>
  What step 5 and step 6 of the handler compute. An entry of the day without a
  \<^verbatim>\<open>userId\<close> makes the request fail with the answer for a malformed date, and
  \<^verbatim>\<open>POST /api/groupHabitEntries\<close> writes no \<^verbatim>\<open>userId\<close>. When every entry of the day
  has one, each member is returned with the number of distinct habits among the entries
  whose \<^verbatim>\<open>userId\<close> is the member.
\<close>

lemma userCompletionCounts_no_userId:
  assumes "\<exists>e\<in>set es. ge_userId e = None"
  shows "\<exists>msg. userCompletionCounts es m = Inl (TypeError msg)"
  using assms
proof (induction es arbitrary: m)
  case Nil
  then show ?case by simp
next
  case (Cons entry es)
  then show ?case
    by (cases "ge_userId entry") (auto simp: Let_def)
qed


lemma post_groupHabitEntries_no_userId:
  assumes "post_groupHabitEntries L w st newEntryData = (res, st')"
  shows "groupHabitEntries st' = groupHabitEntries st
       \<or> (\<exists>e. groupHabitEntries st' = groupHabitEntries st @ [e] \<and> ge_userId e = None)"
proof (cases "\<exists>r. post_groupHabitEntries_try L w st newEntryData = (r, st')")
  case True
  then obtain r where "post_groupHabitEntries_try L w st newEntryData = (r, st')" ..
  then show ?thesis
    by (auto simp: post_groupHabitEntries_try_def insertOne_groupHabitEntries_def Let_def
        log_call_def split: if_splits sum.splits option.splits prod.splits)
next
  case False
  with assms show ?thesis
    by (auto simp: post_groupHabitEntries_def split: if_splits sum.splits prod.splits)
qed

lemma completion_fails_without_userId:
  assumes "db_connected w"
      and "fault w 0 = None" and "fault w 1 = None" and "fault w 2 = None" and "fault w 3 = None"
      and "groupId \<noteq> []" and "dateString \<noteq> []"
      and "ObjectId_isValid L (Some (VStr groupId))"
      and "ObjectId_new L (Some (VStr groupId)) = Inr g"
      and "find (\<lambda>x. group_id x = Some g) (groups st) = Some grp"
      and "\<exists>e\<in>set (group_entries_of_day g (startOfDay L dateString) (endOfDay L dateString) st).
             ge_userId e = None"
  shows "fst (get_members_completion L w st groupId dateString) =
           json 400 (message ''Invalid date format provided. Use YYYY-MM-DD.'')"
proof -
  from userCompletionCounts_no_userId [OF assms(11), of Map.empty] obtain msg where
    "userCompletionCounts
       (group_entries_of_day g (startOfDay L dateString) (endOfDay L dateString) st) Map.empty
     = Inl (TypeError msg)" ..
  with assms(1-10) show ?thesis
    by (simp add: get_members_completion_def get_members_completion_try_def db_read_def
        log_call_def group_entries_of_day_def)
qed

lemma oid_toString_inj: "oid_toString a = oid_toString b \<longleftrightarrow> a = b"
  by (cases a; cases b) simp

lemma userCompletionCounts_Inr:
  assumes "\<forall>e\<in>set es. ge_userId e \<noteq> None"
  shows "\<exists>m'. userCompletionCounts es m = Inr m'
          \<and> (\<forall>k. (case m' k of None \<Rightarrow> {} | Some s \<Rightarrow> set s)
                  = (case m k of None \<Rightarrow> {} | Some s \<Rightarrow> set s)
                    \<union> {oid_toString (ge_habitId e) | e.
                          e \<in> set es \<and> map_option oid_toString (ge_userId e) = Some k})
          \<and> ((\<forall>k. case m k of None \<Rightarrow> True | Some s \<Rightarrow> distinct s)
               \<longrightarrow> (\<forall>k. case m' k of None \<Rightarrow> True | Some s \<Rightarrow> distinct s))"
  using assms
proof (induction es arbitrary: m)
  case Nil
  then show ?case by simp
next
  case (Cons entry es)
  from Cons.prems obtain u where u: "ge_userId entry = Some u" by auto
  define k0 where "k0 = oid_toString u"
  define m1 where "m1 = (if m k0 = None then m(k0 \<mapsto> []) else m)"
  define m2 where "m2 = m1(k0 \<mapsto> List.insert (oid_toString (ge_habitId entry))
                        (case m1 k0 of None \<Rightarrow> [] | Some habitSet \<Rightarrow> habitSet))"
  have step: "userCompletionCounts (entry # es) m = userCompletionCounts es m2"
    by (simp add: u k0_def m1_def m2_def Let_def)
  from Cons.prems have "\<forall>e\<in>set es. ge_userId e \<noteq> None" by simp
  from Cons.IH [OF this, of m2] obtain m' where m':
    "userCompletionCounts es m2 = Inr m'"
    "\<forall>k. (case m' k of None \<Rightarrow> {} | Some s \<Rightarrow> set s)
                  = (case m2 k of None \<Rightarrow> {} | Some s \<Rightarrow> set s)
                    \<union> {oid_toString (ge_habitId e) | e.
                          e \<in> set es \<and> map_option oid_toString (ge_userId e) = Some k}"
    "(\<forall>k. case m2 k of None \<Rightarrow> True | Some s \<Rightarrow> distinct s)
               \<longrightarrow> (\<forall>k. case m' k of None \<Rightarrow> True | Some s \<Rightarrow> distinct s)"
    by blast
  have s2: "(case m2 k of None \<Rightarrow> {} | Some s \<Rightarrow> set s)
            = (case m k of None \<Rightarrow> {} | Some s \<Rightarrow> set s)
              \<union> (if k = k0 then {oid_toString (ge_habitId entry)} else {})" for k
    by (auto simp: m2_def m1_def split: option.splits if_splits)
  have d2: "(\<forall>k. case m k of None \<Rightarrow> True | Some s \<Rightarrow> distinct s)
            \<Longrightarrow> (\<forall>k. case m2 k of None \<Rightarrow> True | Some s \<Rightarrow> distinct s)"
    by (auto simp: m2_def m1_def split: option.splits if_splits)
  have sets: "(case m' k of None \<Rightarrow> {} | Some s \<Rightarrow> set s)
                  = (case m k of None \<Rightarrow> {} | Some s \<Rightarrow> set s)
                    \<union> {oid_toString (ge_habitId e) | e.
                          e \<in> set (entry # es)
                          \<and> map_option oid_toString (ge_userId e) = Some k}" for k
  proof -
    have "{oid_toString (ge_habitId e) | e.
             e \<in> set (entry # es) \<and> map_option oid_toString (ge_userId e) = Some k}
          = (if k = k0 then {oid_toString (ge_habitId entry)} else {})
            \<union> {oid_toString (ge_habitId e) | e.
                 e \<in> set es \<and> map_option oid_toString (ge_userId e) = Some k}"
      using u by (auto simp: k0_def)
    with m'(2) s2 [of k] show ?thesis by (simp add: Un_assoc)
  qed
  have r: "userCompletionCounts (entry # es) m = Inr m'"
    using step m'(1) by simp
  have d: "(\<forall>k. case m k of None \<Rightarrow> True | Some s \<Rightarrow> distinct s)
               \<longrightarrow> (\<forall>k. case m' k of None \<Rightarrow> True | Some s \<Rightarrow> distinct s)"
    using d2 m'(3) by blast
  show ?case
  proof (intro exI [of _ m'] conjI allI)
    show "userCompletionCounts (entry # es) m = Inr m'" by (rule r)
  next
    fix k
    show "(case m' k of None \<Rightarrow> {} | Some s \<Rightarrow> set s)
                  = (case m k of None \<Rightarrow> {} | Some s \<Rightarrow> set s)
                    \<union> {oid_toString (ge_habitId e) | e.
                          e \<in> set (entry # es)
                          \<and> map_option oid_toString (ge_userId e) = Some k}"
      by (rule sets)
  next
    show "(\<forall>k. case m k of None \<Rightarrow> True | Some s \<Rightarrow> distinct s)
               \<longrightarrow> (\<forall>k. case m' k of None \<Rightarrow> True | Some s \<Rightarrow> distinct s)"
      by (rule d)
  qed
qed

lemma membersWithCompletion_Inr:
  assumes "\<forall>u\<in>set ms. user_id u \<noteq> None"
  shows "membersWithCompletion m n ms =
           Inr (map (\<lambda>member.
                  VObj (user_json member
                        @ [(''completedGroupHabits'',
                            VNum (int (case m (oid_toString (the (user_id member))) of
                                         None \<Rightarrow> 0 | Some habitSet \<Rightarrow> length habitSet))),
                           (''totalGroupHabits'', VNum (int n))])) ms)"
  using assms by (induction ms) (auto simp: Let_def)


lemma completed_count_card:
  assumes sets: "\<forall>k. (case m' k of None \<Rightarrow> {} | Some s \<Rightarrow> set s)
                  = {oid_toString (ge_habitId e) | e.
                       e \<in> set es \<and> map_option oid_toString (ge_userId e) = Some k}"
      and dist: "\<forall>k. case m' k of None \<Rightarrow> True | Some s \<Rightarrow> distinct s"
  shows "(case m' (oid_toString i) of None \<Rightarrow> 0 | Some habitSet \<Rightarrow> length habitSet)
         = card {ge_habitId e | e. e \<in> set es \<and> ge_userId e = Some i}"
proof -
  let ?A = "{ge_habitId e | e. e \<in> set es \<and> ge_userId e = Some i}"
  have img: "{oid_toString (ge_habitId e) | e.
               e \<in> set es \<and> map_option oid_toString (ge_userId e) = Some (oid_toString i)}
             = oid_toString ` ?A"
    by (auto simp: oid_toString_inj)
  have inj: "inj_on oid_toString ?A"
    by (simp add: inj_on_def oid_toString_inj)
  have c: "card (oid_toString ` ?A) = card ?A"
    using inj by (rule card_image)
  have key: "(case m' (oid_toString i) of None \<Rightarrow> {} | Some s \<Rightarrow> set s) = oid_toString ` ?A"
    using sets [rule_format, of "oid_toString i"] img by (rule trans)
  show ?thesis
  proof (cases "m' (oid_toString i)")
    case None
    with key have "oid_toString ` ?A = {}" by (simp only: option.case)
    then have "card (oid_toString ` ?A) = 0" by (simp only: card.empty)
    with c have "card ?A = 0" by (simp only:)
    with None show ?thesis by (simp only: option.case)
  next
    case (Some s)
    with key have "set s = oid_toString ` ?A" by (simp only: option.case)
    moreover from Some dist [rule_format, of "oid_toString i"] have "distinct s"
      by (simp only: option.case)
    ultimately have "length s = card ?A"
      using c distinct_card [of s] by (simp only:)
    with Some show ?thesis by (simp only: option.case)
  qed
qed

lemma completion_counts_distinct:
  assumes "db_connected w"
      and "fault w 0 = None" and "fault w 1 = None" and "fault w 2 = None" and "fault w 3 = None"
      and "groupId \<noteq> []" and "dateString \<noteq> []"
      and "ObjectId_isValid L (Some (VStr groupId))"
      and "ObjectId_new L (Some (VStr groupId)) = Inr g"
      and "find (\<lambda>x. group_id x = Some g) (groups st) = Some grp"
      and "\<forall>e\<in>set (group_entries_of_day g (startOfDay L dateString) (endOfDay L dateString) st).
             ge_userId e \<noteq> None"
  shows "fst (get_members_completion L w st groupId dateString) =
           json 200 (VArr (map (\<lambda>member.
              VObj (user_json member
                    @ [(''completedGroupHabits'',
                        VNum (int (card {ge_habitId e | e.
                           e \<in> set (group_entries_of_day g (startOfDay L dateString)
                                      (endOfDay L dateString) st)
                           \<and> ge_userId e = user_id member}))),
                       (''totalGroupHabits'',
                        VNum (int (length (filter (group_habit g) (habits st)))))]))
              (filter (\<lambda>u. case user_id u of
                             None \<Rightarrow> False
                           | Some i \<Rightarrow> i \<in> set (group_memberIds grp)) (users st))))"
proof -
  define es where "es = group_entries_of_day g (startOfDay L dateString) (endOfDay L dateString) st"
  define ms where "ms = filter (\<lambda>u. case user_id u of
                             None \<Rightarrow> False
                           | Some i \<Rightarrow> i \<in> set (group_memberIds grp)) (users st)"
  define n where "n = length (filter (group_habit g) (habits st))"
  from assms(11) have "\<forall>e\<in>set es. ge_userId e \<noteq> None" by (simp add: es_def)
  from userCompletionCounts_Inr [OF this, of Map.empty] obtain m' where m':
    "userCompletionCounts es Map.empty = Inr m'"
    "\<forall>k. (case m' k of None \<Rightarrow> {} | Some s \<Rightarrow> set s)
                  = {oid_toString (ge_habitId e) | e.
                       e \<in> set es \<and> map_option oid_toString (ge_userId e) = Some k}"
    "\<forall>k. case m' k of None \<Rightarrow> True | Some s \<Rightarrow> distinct s"
    by auto
  have ids: "\<forall>u\<in>set ms. user_id u \<noteq> None"
    by (auto simp: ms_def split: option.splits)
  have run: "fst (get_members_completion L w st groupId dateString) =
           (case membersWithCompletion m' n ms of
              Inl e \<Rightarrow> (if range_or_type_error e
                        then json 400 (message ''Invalid date format provided. Use YYYY-MM-DD.'')
                        else json 500 (message_error
                               ''Failed to fetch group members with completion status.'' e))
            | Inr result \<Rightarrow> json 200 (VArr result))"
    using assms(1-10) m'(1)
    by (simp add: get_members_completion_def get_members_completion_try_def db_read_def
        log_call_def group_entries_of_day_def es_def [symmetric, unfolded group_entries_of_day_def]
        ms_def n_def split: sum.splits)
  have "map (\<lambda>member. VObj (user_json member
                        @ [(''completedGroupHabits'',
                            VNum (int (case m' (oid_toString (the (user_id member))) of
                                         None \<Rightarrow> 0 | Some habitSet \<Rightarrow> length habitSet))),
                           (''totalGroupHabits'', VNum (int n))])) ms
        = map (\<lambda>member. VObj (user_json member
                    @ [(''completedGroupHabits'',
                        VNum (int (card {ge_habitId e | e.
                           e \<in> set es \<and> ge_userId e = user_id member}))),
                       (''totalGroupHabits'', VNum (int n))])) ms"
  proof (rule map_cong [OF refl])
    fix member assume "member \<in> set ms"
    with ids obtain i where i: "user_id member = Some i" by auto
    from completed_count_card [OF m'(2,3), of i] i
    show "VObj (user_json member
                        @ [(''completedGroupHabits'',
                            VNum (int (case m' (oid_toString (the (user_id member))) of
                                         None \<Rightarrow> 0 | Some habitSet \<Rightarrow> length habitSet))),
                           (''totalGroupHabits'', VNum (int n))])
          = VObj (user_json member
                    @ [(''completedGroupHabits'',
                        VNum (int (card {ge_habitId e | e.
                           e \<in> set es \<and> ge_userId e = user_id member}))),
                       (''totalGroupHabits'', VNum (int n))])"
      by simp
  qed
  with membersWithCompletion_Inr [OF ids, of m' n]
  have "membersWithCompletion m' n ms =
          Inr (map (\<lambda>member. VObj (user_json member
                    @ [(''completedGroupHabits'',
                        VNum (int (card {ge_habitId e | e.
                           e \<in> set es \<and> ge_userId e = user_id member}))),
                       (''totalGroupHabits'', VNum (int n))])) ms)"
    by (simp only:)
  then show ?thesis
    unfolding run by (simp add: es_def ms_def n_def)
qed


end
